theory Spec2Isabelle
  imports Main "HOL-Library.Word" "HOL-Library.Log_Nat"
begin

unbundle bit_operations_syntax

text \<open>
  A model of the Go package \<^verbatim>\<open>retry\<close>: the backoff strategies, the terminal-error
  marker and the loop of \<^verbatim>\<open>execute\<close>.  The caller's code (operation, clock, hooks,
  condition) is taken to return without panicking, the clock and the strategy of a
  configuration are not \<^verbatim>\<open>nil\<close>, and errors are values of the standard library's
  error types and of \<^verbatim>\<open>*stopError\<close>, without \<^verbatim>\<open>Is\<close> or \<^verbatim>\<open>As\<close> methods of their own.
\<close>

section \<open>Durations and instants\<close>

text \<open>
  \<^verbatim>\<open>time.Duration\<close> is an \<^verbatim>\<open>int64\<close> count of nanoseconds: a 64-bit word whose
  arithmetic wraps and whose comparisons read it signed (\<open>sint\<close>).  Attempt numbers
  are Go \<^verbatim>\<open>int\<close>s; they are kept as integers and converted with \<open>word_of_int\<close> where
  the source writes \<^verbatim>\<open>time.Duration(attempt)\<close>.
\<close>

type_synonym duration = "64 word"

definition MaxInt64 :: duration where
  "MaxInt64 = 0x7FFFFFFFFFFFFFFF"

definition Millisecond :: duration where
  "Millisecond = 1000000"

text \<open>
  An instant of \<^verbatim>\<open>time.Time\<close> is a number of nanoseconds on an unbounded axis.
  \<^verbatim>\<open>Time.Sub\<close> saturates at the smallest and largest duration.
\<close>

type_synonym instant = int

definition time_Add :: "instant \<Rightarrow> duration \<Rightarrow> instant" where
  "time_Add t d = t + sint d"

definition time_After :: "instant \<Rightarrow> instant \<Rightarrow> bool" where
  "time_After t u = (u < t)"

definition time_Sub :: "instant \<Rightarrow> instant \<Rightarrow> duration" where
  "time_Sub t u =
     (if t - u > 2 ^ 63 - 1 then MaxInt64
      else if t - u < - (2 ^ 63) then word_of_int (- (2 ^ 63))
      else word_of_int (t - u))"

section \<open>Binary floating point (float64)\<close>

text \<open>
  A \<^verbatim>\<open>float64\<close> is a finite rational, an infinity or a NaN.  Every arithmetic result
  is rounded to the nearest value with a 53-bit significand, ties to even, with
  gradual underflow below \<open>2 ^ -1022\<close> and overflow to an infinity from \<open>2 ^ 1024\<close>.
  Each operation is rounded on its own (no fused multiply-add).  The sign of a zero
  is not kept: nothing in the package observes it.
\<close>

datatype f64 = Finite rat | PosInf | NegInf | NaN

definition binade :: "rat \<Rightarrow> int" where
  "binade x =
     (let (a, b) = quotient_of \<bar>x\<bar>;
          k = bitlen a - bitlen b
      in if 2 powi k \<le> \<bar>x\<bar> then k else k - 1)"

definition round_half_even :: "rat \<Rightarrow> int" where
  "round_half_even q =
     (let f = \<lfloor>q\<rfloor>; r = q - of_int f
      in if r < 1 / 2 then f
         else if 1 / 2 < r then f + 1
         else if even f then f else f + 1)"

definition f64_rne :: "rat \<Rightarrow> rat" where
  "f64_rne x =
     (if x = 0 then 0
      else let ulp = 2 powi (max (binade x) (- 1022) - 52)
           in of_int (round_half_even (x / ulp)) * ulp)"

definition f64_round :: "rat \<Rightarrow> f64" where
  "f64_round x =
     (let y = f64_rne x
      in if 2 ^ 1024 \<le> \<bar>y\<bar> then (if 0 < y then PosInf else NegInf) else Finite y)"

fun f64_neg :: "f64 \<Rightarrow> f64" where
  "f64_neg (Finite x) = Finite (- x)"
| "f64_neg PosInf = NegInf"
| "f64_neg NegInf = PosInf"
| "f64_neg NaN = NaN"

fun f64_mul :: "f64 \<Rightarrow> f64 \<Rightarrow> f64" where
  "f64_mul NaN _ = NaN"
| "f64_mul _ NaN = NaN"
| "f64_mul (Finite x) (Finite y) = f64_round (x * y)"
| "f64_mul (Finite x) PosInf = (if x = 0 then NaN else if 0 < x then PosInf else NegInf)"
| "f64_mul (Finite x) NegInf = (if x = 0 then NaN else if 0 < x then NegInf else PosInf)"
| "f64_mul PosInf (Finite y) = (if y = 0 then NaN else if 0 < y then PosInf else NegInf)"
| "f64_mul NegInf (Finite y) = (if y = 0 then NaN else if 0 < y then NegInf else PosInf)"
| "f64_mul PosInf PosInf = PosInf"
| "f64_mul PosInf NegInf = NegInf"
| "f64_mul NegInf PosInf = NegInf"
| "f64_mul NegInf NegInf = PosInf"

fun f64_add :: "f64 \<Rightarrow> f64 \<Rightarrow> f64" where
  "f64_add NaN _ = NaN"
| "f64_add _ NaN = NaN"
| "f64_add (Finite x) (Finite y) = f64_round (x + y)"
| "f64_add (Finite x) PosInf = PosInf"
| "f64_add (Finite x) NegInf = NegInf"
| "f64_add PosInf (Finite y) = PosInf"
| "f64_add NegInf (Finite y) = NegInf"
| "f64_add PosInf PosInf = PosInf"
| "f64_add PosInf NegInf = NaN"
| "f64_add NegInf PosInf = NaN"
| "f64_add NegInf NegInf = NegInf"

definition f64_sub :: "f64 \<Rightarrow> f64 \<Rightarrow> f64" where
  "f64_sub a b = f64_add a (f64_neg b)"

fun f64_le :: "f64 \<Rightarrow> f64 \<Rightarrow> bool" where
  "f64_le NaN _ = False"
| "f64_le _ NaN = False"
| "f64_le (Finite x) (Finite y) = (x \<le> y)"
| "f64_le NegInf _ = True"
| "f64_le _ PosInf = True"
| "f64_le PosInf _ = False"
| "f64_le _ NegInf = False"

text \<open>\<^verbatim>\<open>float64(d)\<close> for a duration \<open>d\<close>.\<close>

definition f64_of_duration :: "duration \<Rightarrow> f64" where
  "f64_of_duration d = f64_round (of_int (sint d))"

text \<open>
  \<^verbatim>\<open>time.Duration(x)\<close> for a float \<open>x\<close> discards the fraction (truncation towards
  zero).  When the truncated value does not fit an \<^verbatim>\<open>int64\<close>, or \<open>x\<close> is not
  finite, the language leaves the result to the implementation: it is the parameter
  \<open>indef\<close> (amd64 yields \<open>-2 ^ 63\<close> for every such \<open>x\<close>).
\<close>

definition truncate_rat :: "rat \<Rightarrow> int" where
  "truncate_rat x = (if 0 \<le> x then \<lfloor>x\<rfloor> else \<lceil>x\<rceil>)"

fun duration_of_f64 :: "(f64 \<Rightarrow> duration) \<Rightarrow> f64 \<Rightarrow> duration" where
  "duration_of_f64 indef (Finite x) =
     (let t = truncate_rat x
      in if - (2 ^ 63) \<le> t \<and> t < 2 ^ 63 then word_of_int t else indef (Finite x))"
| "duration_of_f64 indef x = indef x"

section \<open>Backoff strategies\<close>

text \<open>
  The strategies of the package are closures over their parameters; they are
  represented by the constructor calls that build them.  \<open>BackoffFunc\<close> is a
  caller-supplied function.
\<close>

datatype backoff =
    BackoffFunc "int \<Rightarrow> duration"
  | Constant duration
  | Linear duration
  | Exponential duration
  | WithCap duration backoff
  | WithMin duration backoff
  | WithJitter f64 backoff

text \<open>
  The runtime a strategy runs in: the successive results of \<^verbatim>\<open>rand.Float64()\<close> (each
  in \<open>[0, 1)\<close>), consumed one per jittered call, and the implementation's result for
  an out-of-range float-to-integer conversion.
\<close>

record runtime =
  draws :: "nat \<Rightarrow> rat"
  indefinite :: "f64 \<Rightarrow> duration"

definition rand_Float64 :: "runtime \<Rightarrow> f64 \<times> runtime" where
  "rand_Float64 rt = (Finite (draws rt 0), rt\<lparr>draws := (\<lambda>n. draws rt (Suc n))\<rparr>)"

fun Delay :: "backoff \<Rightarrow> int \<Rightarrow> runtime \<Rightarrow> duration \<times> runtime" where
  "Delay (BackoffFunc f) attempt rt = (f attempt, rt)"
| "Delay (Constant d) attempt rt = (d, rt)"
| "Delay (Linear base) attempt rt = (base * word_of_int attempt, rt)"
| "Delay (Exponential base) attempt rt =
     (if attempt \<le> 0 then (base, rt)
      else if 62 < attempt then (MaxInt64, rt)
      else (base * push_bit (nat (attempt - 1)) 1, rt))"
| "Delay (WithCap mx b) attempt rt =
     (let (d, rt') = Delay b attempt rt
      in if sint mx < sint d then (mx, rt') else (d, rt'))"
| "Delay (WithMin mn b) attempt rt =
     (let (d, rt') = Delay b attempt rt
      in if sint d < sint mn then (mn, rt') else (d, rt'))"
| "Delay (WithJitter factor b) attempt rt =
     (let (d, rt') = Delay b attempt rt
      in if f64_le factor (Finite 0) then (d, rt')
         else
           let jitterRange = f64_mul (f64_of_duration d) factor;
               (r, rt'') = rand_Float64 rt';
               jitter = f64_mul (f64_sub (f64_mul r (Finite 2)) (Finite 1)) jitterRange;
               result = duration_of_f64 (indefinite rt'') (f64_add (f64_of_duration d) jitter)
           in if sint result < 0 then (0, rt'') else (result, rt''))"

section \<open>Errors\<close>

text \<open>
  Error values of the standard library: \<open>New\<close> is the result of \<^verbatim>\<open>errors.New\<close>,
  \<open>Wrapped\<close> of \<^verbatim>\<open>fmt.Errorf\<close> with \<^verbatim>\<open>%w\<close>, \<open>Joined\<close> of \<^verbatim>\<open>errors.Join\<close>, and
  \<open>StopErr\<close> is the package's \<^verbatim>\<open>*stopError\<close>.  All of them are pointers: two values
  are the same error exactly when they are the same term.  A \<^verbatim>\<open>nil\<close> error is
  \<open>None\<close>.
\<close>

datatype err =
    New string
  | Wrapped string err
  | StopErr err
  | Joined "err list"

text \<open>\<^verbatim>\<open>Stop\<close> and the \<^verbatim>\<open>Unwrap\<close> method of \<^verbatim>\<open>*stopError\<close>.\<close>

fun Stop :: "err option \<Rightarrow> err option" where
  "Stop None = None"
| "Stop (Some e) = Some (StopErr e)"

fun stopError_Unwrap :: "err \<Rightarrow> err option" where
  "stopError_Unwrap (StopErr e) = Some e"
| "stopError_Unwrap _ = None"

text \<open>
  \<^verbatim>\<open>errors.Is(e, target)\<close>: the tree below \<open>e\<close> is walked depth first, each node
  compared with the target.
\<close>

fun errors_Is :: "err \<Rightarrow> err \<Rightarrow> bool"
  and errors_Is_list :: "err list \<Rightarrow> err \<Rightarrow> bool" where
  "errors_Is (New s) t = (New s = t)"
| "errors_Is (Wrapped s e) t = (Wrapped s e = t \<or> errors_Is e t)"
| "errors_Is (StopErr e) t = (StopErr e = t \<or> errors_Is e t)"
| "errors_Is (Joined es) t = (Joined es = t \<or> errors_Is_list es t)"
| "errors_Is_list [] t = False"
| "errors_Is_list (e # es) t = (errors_Is e t \<or> errors_Is_list es t)"

text \<open>
  \<^verbatim>\<open>errors.As(e, &stopped)\<close> for a target of type \<^verbatim>\<open>*stopError\<close>: the first
  \<^verbatim>\<open>*stopError\<close> of the same walk, if there is one.
\<close>

fun errors_As_stopError :: "err \<Rightarrow> err option"
  and errors_As_stopError_list :: "err list \<Rightarrow> err option" where
  "errors_As_stopError (New s) = None"
| "errors_As_stopError (Wrapped s e) = errors_As_stopError e"
| "errors_As_stopError (StopErr e) = Some (StopErr e)"
| "errors_As_stopError (Joined es) = errors_As_stopError_list es"
| "errors_As_stopError_list [] = None"
| "errors_As_stopError_list (e # es) =
     (case errors_As_stopError e of
        Some m \<Rightarrow> Some m
      | None \<Rightarrow> errors_As_stopError_list es)"

text \<open>\<^verbatim>\<open>errors.Join\<close> of non-nil errors, and \<^verbatim>\<open>joinErrors\<close>.\<close>

definition errors_Join :: "err list \<Rightarrow> err option" where
  "errors_Join es = (if es = [] then None else Some (Joined es))"

definition joinErrors :: "err list \<Rightarrow> err option" where
  "joinErrors es = (if length es = 1 then Some (es ! 0) else errors_Join es)"

section \<open>The retry loop\<close>

text \<open>
  Everything the caller supplies runs in the caller's world \<open>'w\<close> (the clock's state,
  the context and its cancellation, whatever the operation and the hooks touch): the
  operation, the clock's two methods and the hooks are state transformers on it.  The
  retry condition is a pure predicate.  An unset hook or condition is \<open>None\<close>.
\<close>

record 'w config =
  maxAttempts :: int
  maxDuration :: duration
  backoff :: backoff
  clock_Now :: "'w \<Rightarrow> instant \<times> 'w"
  clock_Sleep :: "duration \<Rightarrow> 'w \<Rightarrow> err option \<times> 'w"
  condition :: "(err \<Rightarrow> bool) option"
  onRetry :: "(int \<Rightarrow> err \<Rightarrow> duration \<Rightarrow> 'w \<Rightarrow> 'w) option"
  onSuccess :: "(int \<Rightarrow> 'w \<Rightarrow> 'w) option"
  onExhausted :: "(int \<Rightarrow> err \<Rightarrow> 'w \<Rightarrow> 'w) option"
  allErrors :: bool

definition DefaultMaxAttempts :: int where
  "DefaultMaxAttempts = 3"

text \<open>\<^verbatim>\<open>defaultCondition\<close>, on the non-nil error the loop passes to it.\<close>

definition defaultCondition :: "err \<Rightarrow> bool" where
  "defaultCondition e = (Some e \<noteq> None)"

text \<open>
  What a run does is recorded as it happens: each call of the operation with the
  attempt number and what it returned, each hook call with its arguments, each sleep
  with its duration and result.
\<close>

datatype event =
    Called int "err option"
  | SuccessHook int
  | ExhaustedHook int err
  | RetryHook int err duration
  | Slept duration "err option"

record 'w state =
  lastErr :: "err option"
  errs :: "err list"
  attempt :: int
  world :: 'w
  rts :: runtime
  trace :: "event list"

text \<open>
  The return statements of \<^verbatim>\<open>execute\<close>, by the state of the loop they leave from:
  \<open>Success\<close> after a call that returned no error; \<open>Stopped\<close> after a terminal error;
  \<open>Exhausted\<close> for the three returns that follow the guarded call of the exhaustion
  hook (attempt budget reached, deadline passed, clamped delay \<open>\<le> 0\<close>);
  \<open>ConditionRejected\<close> after the condition refused the error; \<open>Cancelled\<close> after a
  sleep that returned an error.
\<close>

datatype exit_state = Success | Stopped | Exhausted | ConditionRejected | Cancelled

record 'w outcome =
  returned :: "err option"
  exit_via :: exit_state
  final :: "'w state"

datatype 'w step = Return "'w outcome" | Continue "'w state"

text \<open>The statements of the loop body that change the state, one definition each.\<close>

definition call_fn :: "('w \<Rightarrow> err option \<times> 'w) \<Rightarrow> 'w state \<Rightarrow> err option \<times> 'w state" where
  "call_fn fn st =
     (let (r, w') = fn (world st)
      in (r, st\<lparr>world := w', trace := trace st @ [Called (attempt st) r]\<rparr>))"

definition call_onSuccess :: "'w config \<Rightarrow> 'w state \<Rightarrow> 'w state" where
  "call_onSuccess cfg st =
     (case onSuccess cfg of
        None \<Rightarrow> st
      | Some h \<Rightarrow> st\<lparr>world := h (attempt st) (world st),
                     trace := trace st @ [SuccessHook (attempt st)]\<rparr>)"

definition call_onExhausted :: "'w config \<Rightarrow> err \<Rightarrow> 'w state \<Rightarrow> 'w state" where
  "call_onExhausted cfg e st =
     (case onExhausted cfg of
        None \<Rightarrow> st
      | Some h \<Rightarrow> st\<lparr>world := h (attempt st) e (world st),
                     trace := trace st @ [ExhaustedHook (attempt st) e]\<rparr>)"

definition call_onRetry :: "'w config \<Rightarrow> err \<Rightarrow> duration \<Rightarrow> 'w state \<Rightarrow> 'w state" where
  "call_onRetry cfg e delay st =
     (case onRetry cfg of
        None \<Rightarrow> st
      | Some h \<Rightarrow> st\<lparr>world := h (attempt st) e delay (world st),
                     trace := trace st @ [RetryHook (attempt st) e delay]\<rparr>)"

definition call_Now :: "'w config \<Rightarrow> 'w state \<Rightarrow> instant \<times> 'w state" where
  "call_Now cfg st = (let (now, w') = clock_Now cfg (world st) in (now, st\<lparr>world := w'\<rparr>))"

definition call_Sleep :: "'w config \<Rightarrow> duration \<Rightarrow> 'w state \<Rightarrow> err option \<times> 'w state" where
  "call_Sleep cfg delay st =
     (let (r, w') = clock_Sleep cfg delay (world st)
      in (r, st\<lparr>world := w', trace := trace st @ [Slept delay r]\<rparr>))"

definition call_Delay :: "'w config \<Rightarrow> 'w state \<Rightarrow> duration \<times> 'w state" where
  "call_Delay cfg st =
     (let (delay, rt') = Delay (backoff cfg) (attempt st) (rts st) in (delay, st\<lparr>rts := rt'\<rparr>))"

text \<open>\<^verbatim>\<open>if cfg.allErrors { errs = append(errs, err) } else { lastErr = err }\<close>\<close>

definition record_error :: "'w config \<Rightarrow> err \<Rightarrow> 'w state \<Rightarrow> 'w state" where
  "record_error cfg e st =
     (if allErrors cfg then st\<lparr>errs := errs st @ [e]\<rparr> else st\<lparr>lastErr := Some e\<rparr>)"

text \<open>\<^verbatim>\<open>if cfg.allErrors { return joinErrors(errs) }; return lastErr\<close>\<close>

definition recorded :: "'w config \<Rightarrow> 'w state \<Rightarrow> err option" where
  "recorded cfg st = (if allErrors cfg then joinErrors (errs st) else lastErr st)"

definition return_recorded :: "'w config \<Rightarrow> exit_state \<Rightarrow> 'w state \<Rightarrow> 'w outcome" where
  "return_recorded cfg x st = \<lparr>returned = recorded cfg st, exit_via = x, final = st\<rparr>"

text \<open>The guarded call of the exhaustion hook followed by that return.\<close>

definition exhausted :: "'w config \<Rightarrow> err \<Rightarrow> 'w state \<Rightarrow> 'w outcome" where
  "exhausted cfg e st = return_recorded cfg Exhausted (call_onExhausted cfg e st)"

text \<open>
  The second half of an iteration, from the comment \<^verbatim>\<open>Calculate delay\<close> on: the
  delay, its clamp to the time left, the retry hook and the sleep.
\<close>

definition clamp_delay :: "'w config \<Rightarrow> instant \<Rightarrow> duration \<Rightarrow> 'w state \<Rightarrow> duration \<times> 'w state" where
  "clamp_delay cfg deadline delay st =
     (let (now, st') = call_Now cfg st;
          remaining = time_Sub deadline now
      in (if sint remaining < sint delay then remaining else delay, st'))"

definition delay_and_sleep :: "'w config \<Rightarrow> instant \<Rightarrow> err \<Rightarrow> 'w state \<Rightarrow> 'w step" where
  "delay_and_sleep cfg deadline e st =
     (let (delay, st1) = call_Delay cfg st;
          (delay', st2) = (if 0 < sint (maxDuration cfg) then clamp_delay cfg deadline delay st1
                           else (delay, st1))
      in if 0 < sint (maxDuration cfg) \<and> sint delay' \<le> 0 then Return (exhausted cfg e st2)
         else
           let (r, st3) = call_Sleep cfg delay' (call_onRetry cfg e delay' st2)
           in if r \<noteq> None then Return (return_recorded cfg Cancelled st3)
              else Continue st3)"

text \<open>The condition \<^verbatim>\<open>cfg.condition != nil && !cfg.condition(err)\<close>.\<close>

definition rejects :: "'w config \<Rightarrow> err \<Rightarrow> bool" where
  "rejects cfg e = (case condition cfg of None \<Rightarrow> False | Some c \<Rightarrow> \<not> c e)"

text \<open>The part of an iteration that follows a non-terminal error.\<close>

definition after_failure :: "'w config \<Rightarrow> int \<Rightarrow> instant \<Rightarrow> err \<Rightarrow> 'w state \<Rightarrow> 'w step" where
  "after_failure cfg maxA deadline e st1 =
     (let st2 = record_error cfg e st1
      in if maxA \<le> attempt st2 then Return (exhausted cfg e st2)
         else if rejects cfg e then Return (return_recorded cfg ConditionRejected st2)
         else if 0 < sint (maxDuration cfg) then
           (let (now, st3) = call_Now cfg st2
            in if time_After now deadline then Return (exhausted cfg e st3)
               else delay_and_sleep cfg deadline e st3)
         else delay_and_sleep cfg deadline e st2)"

text \<open>One iteration of the \<^verbatim>\<open>for\<close> loop of \<^verbatim>\<open>execute\<close>.\<close>

definition attempt_body ::
  "('w \<Rightarrow> err option \<times> 'w) \<Rightarrow> 'w config \<Rightarrow> int \<Rightarrow> instant \<Rightarrow> 'w state \<Rightarrow> 'w step" where
  "attempt_body fn cfg maxA deadline st =
     (let (r, st1) = call_fn fn st
      in case r of
           None \<Rightarrow>
             Return \<lparr>returned = None, exit_via = Success, final = call_onSuccess cfg st1\<rparr>
         | Some e \<Rightarrow>
             (case errors_As_stopError e of
                Some stopped \<Rightarrow>
                  Return \<lparr>returned = stopError_Unwrap stopped, exit_via = Stopped, final = st1\<rparr>
              | None \<Rightarrow> after_failure cfg maxA deadline e st1))"

text \<open>
  The loop: the body, then \<^verbatim>\<open>attempt++\<close>.  It ends because the body only continues
  below the attempt budget.
\<close>

function loop ::
  "('w \<Rightarrow> err option \<times> 'w) \<Rightarrow> 'w config \<Rightarrow> int \<Rightarrow> instant \<Rightarrow> 'w state \<Rightarrow> 'w outcome" where
  "loop fn cfg maxA deadline st =
     (case attempt_body fn cfg maxA deadline st of
        Return out \<Rightarrow> out
      | Continue st' \<Rightarrow> loop fn cfg maxA deadline (st'\<lparr>attempt := attempt st' + 1\<rparr>))"
  by pat_completeness auto
termination
proof (relation "measure (\<lambda>(fn, cfg, maxA, deadline, st). nat (maxA - attempt st))")
  show "wf (measure (\<lambda>(fn, cfg, maxA, deadline, st). nat (maxA - attempt st)))"
    by simp
next
  fix fn :: "'w \<Rightarrow> err option \<times> 'w" and cfg :: "'w config" and maxA :: int
    and deadline :: instant and st st' :: "'w state"
  assume "attempt_body fn cfg maxA deadline st = Continue st'"
  then have "attempt st' = attempt st \<and> attempt st < maxA"
    by (auto simp: attempt_body_def after_failure_def delay_and_sleep_def clamp_delay_def
          call_fn_def call_Now_def call_Sleep_def call_Delay_def call_onRetry_def
          record_error_def Let_def
          split: prod.splits option.splits if_splits)
  then show "((fn, cfg, maxA, deadline, st'\<lparr>attempt := attempt st' + 1\<rparr>),
              (fn, cfg, maxA, deadline, st))
             \<in> measure (\<lambda>(fn, cfg, maxA, deadline, st). nat (maxA - attempt st))"
    by simp
qed

text \<open>
  \<^verbatim>\<open>execute\<close>: the deadline is taken from the clock when a duration budget is set
  (it is the zero time otherwise, and never read), a non-positive attempt budget is
  replaced by the default, and the loop starts at attempt 1.
\<close>

definition initial_state :: "'w \<Rightarrow> runtime \<Rightarrow> 'w state" where
  "initial_state w rt =
     \<lparr>lastErr = None, errs = [], attempt = 1, world = w, rts = rt, trace = []\<rparr>"

definition set_deadline :: "'w config \<Rightarrow> 'w \<Rightarrow> runtime \<Rightarrow> instant \<times> 'w state" where
  "set_deadline cfg w rt =
     (if 0 < sint (maxDuration cfg) then
        let (now, st) = call_Now cfg (initial_state w rt)
        in (time_Add now (maxDuration cfg), st)
      else (0, initial_state w rt))"

definition attempt_budget :: "'w config \<Rightarrow> int" where
  "attempt_budget cfg = (if maxAttempts cfg \<le> 0 then DefaultMaxAttempts else maxAttempts cfg)"

definition execute ::
  "('w \<Rightarrow> err option \<times> 'w) \<Rightarrow> 'w config \<Rightarrow> 'w \<Rightarrow> runtime \<Rightarrow> 'w outcome" where
  "execute fn cfg w rt =
     (let (deadline, st0) = set_deadline cfg w rt
      in loop fn cfg (attempt_budget cfg) deadline st0)"

section \<open>Reading a trace\<close>

text \<open>
  The errors the operation returned and the attempt numbers it was called with, each
  in order.
\<close>

definition failures :: "event list \<Rightarrow> err list" where
  "failures tr = concat (map (\<lambda>ev. case ev of Called a (Some e) \<Rightarrow> [e] | _ \<Rightarrow> []) tr)"

definition operation_calls :: "event list \<Rightarrow> int list" where
  "operation_calls tr = concat (map (\<lambda>ev. case ev of Called a r \<Rightarrow> [a] | _ \<Rightarrow> []) tr)"

text \<open>
  The recorded errors agree with the trace: in aggregation mode \<open>errs\<close> holds every
  failure so far, otherwise \<open>lastErr\<close> holds the latest one.
\<close>

definition records_failures :: "'w config \<Rightarrow> 'w state \<Rightarrow> bool" where
  "records_failures cfg st =
     (if allErrors cfg then errs st = failures (trace st)
      else lastErr st = (if failures (trace st) = [] then None
                         else Some (last (failures (trace st)))))"

section \<open>Conditions on strategies\<close>

text \<open>
  A strategy of the package is within range at an attempt when its parameters are
  not negative and the product its base strategy forms fits an \<^verbatim>\<open>int64\<close>; a cap or
  a jitter below such a strategy, a floor that is not negative, and a jitter with a
  factor that is not \<open>\<le> 0\<close> keep it so.
\<close>

fun within_range :: "backoff \<Rightarrow> int \<Rightarrow> bool" where
  "within_range (BackoffFunc f) n = False"
| "within_range (Constant d) n = (0 \<le> sint d)"
| "within_range (Linear base) n = (0 \<le> sint base \<and> 0 \<le> n \<and> sint base * n < 2 ^ 63)"
| "within_range (Exponential base) n =
     (0 \<le> sint base \<and> (n \<le> 0 \<or> 62 < n \<or> sint base * 2 ^ nat (n - 1) < 2 ^ 63))"
| "within_range (WithCap mx b) n = (0 \<le> sint mx \<and> within_range b n)"
| "within_range (WithMin mn b) n = (0 \<le> sint mn \<or> within_range b n)"
| "within_range (WithJitter factor b) n = (\<not> f64_le factor (Finite 0) \<or> within_range b n)"

section \<open>The fake clock of the tests\<close>

text \<open>
  The world of \<^verbatim>\<open>retry_test.go\<close>: the \<^verbatim>\<open>fakeClock\<close> (its time and the sleeps it was
  asked for), whether the context is cancelled, the counter the test operations
  increment, and the variables in which the hooks of the tests note their arguments.
\<close>

record test_world =
  clock_now :: instant
  clock_sleeps :: "duration list"
  ctx_done :: bool
  attempts :: nat
  exhaustedCalls :: "(int \<times> err) list"
  retryCalls :: "(int \<times> err \<times> duration) list"

definition context_Canceled :: err where
  "context_Canceled = New ''context canceled''"

definition fakeClock_Now :: "test_world \<Rightarrow> instant \<times> test_world" where
  "fakeClock_Now w = (clock_now w, w)"

definition fakeClock_Sleep :: "duration \<Rightarrow> test_world \<Rightarrow> err option \<times> test_world" where
  "fakeClock_Sleep d w =
     (if ctx_done w then (Some context_Canceled, w)
      else (None, w\<lparr>clock_sleeps := clock_sleeps w @ [d], clock_now := time_Add (clock_now w) d\<rparr>))"

definition fakeClock_Advance :: "duration \<Rightarrow> test_world \<Rightarrow> test_world" where
  "fakeClock_Advance d w = w\<lparr>clock_now := time_Add (clock_now w) d\<rparr>"

definition newFakeClock :: test_world where
  "newFakeClock =
     \<lparr>clock_now = 0, clock_sleeps = [], ctx_done = False, attempts = 0,
      exhaustedCalls = [], retryCalls = []\<rparr>"

text \<open>The configuration \<^verbatim>\<open>Do\<close> starts from, with \<^verbatim>\<open>WithClock\<close> of the fake clock.\<close>

definition Do_config :: "test_world config" where
  "Do_config =
     \<lparr>maxAttempts = DefaultMaxAttempts, maxDuration = 0,
      backoff = Exponential (100 * Millisecond),
      clock_Now = fakeClock_Now, clock_Sleep = fakeClock_Sleep,
      condition = Some defaultCondition,
      onRetry = None, onSuccess = None, onExhausted = None, allErrors = False\<rparr>"

text \<open>A test operation: count the attempt and return what the function gives for it.\<close>

definition counting :: "(nat \<Rightarrow> err option) \<Rightarrow> test_world \<Rightarrow> err option \<times> test_world" where
  "counting f w = (f (Suc (attempts w)), w\<lparr>attempts := Suc (attempts w)\<rparr>)"

definition errTest :: err where
  "errTest = New ''test error''"

text \<open>The hooks of the tests: each notes the arguments it is called with.\<close>

definition noteExhausted :: "int \<Rightarrow> err \<Rightarrow> test_world \<Rightarrow> test_world" where
  "noteExhausted a e w = w\<lparr>exhaustedCalls := exhaustedCalls w @ [(a, e)]\<rparr>"

definition noteRetry :: "int \<Rightarrow> err \<Rightarrow> duration \<Rightarrow> test_world \<Rightarrow> test_world" where
  "noteRetry a e d w = w\<lparr>retryCalls := retryCalls w @ [(a, e, d)]\<rparr>"

text \<open>A runtime whose random source always returns \<open>r\<close>, on amd64.\<close>

definition constant_draws :: "rat \<Rightarrow> runtime" where
  "constant_draws r = \<lparr>draws = (\<lambda>n. r), indefinite = (\<lambda>x. word_of_int (- (2 ^ 63)))\<rparr>"

section \<open>Rounding to float64\<close>

text \<open>
  \<open>binade\<close> is the exponent of the power of two at or below \<open>\<bar>x\<bar>\<close>; rounding never
  crosses a number that float64 represents, so it is exact on integers up to \<open>2 ^ 53\<close>
  and keeps every bound that is such an integer.
\<close>

lemma bitlen_powi_bounds:
  assumes "0 < a"
  shows "(2::rat) powi (bitlen a - 1) \<le> of_int a" and "of_int a < (2::rat) powi bitlen a"
proof -
  have b1: "1 \<le> bitlen a"
    using assms bitlen_eq_zero_iff [of a] bitlen_nonneg [of a] by linarith
  have "(2::int) ^ nat (bitlen a - 1) \<le> a" and "a < 2 ^ nat (bitlen a)"
    using bitlen_bounds [OF assms] by auto
  then have "rat_of_int (2 ^ nat (bitlen a - 1)) \<le> of_int a"
    and "rat_of_int a < of_int (2 ^ nat (bitlen a))"
    by (simp_all only: of_int_le_iff of_int_less_iff)
  then show "(2::rat) powi (bitlen a - 1) \<le> of_int a" and "of_int a < (2::rat) powi bitlen a"
    using b1 by (simp_all add: power_int_def)
qed

lemma binade_bounds:
  assumes "x \<noteq> 0"
  shows "2 powi binade x \<le> \<bar>x\<bar>" and "\<bar>x\<bar> < 2 powi (binade x + 1)"
proof -
  obtain a b where q: "quotient_of \<bar>x\<bar> = (a, b)"
    by (cases "quotient_of \<bar>x\<bar>")
  have b: "0 < b"
    using q by (rule quotient_of_denom_pos)
  have xab: "\<bar>x\<bar> = of_int a / of_int b"
    using q by (rule quotient_of_div)
  have a: "0 < a"
  proof (rule ccontr)
    assume "\<not> 0 < a"
    then have "rat_of_int a / of_int b \<le> 0"
      using b by (simp add: divide_le_0_iff)
    with xab assms show False by simp
  qed
  define k where "k = bitlen a - bitlen b"
  note A = bitlen_powi_bounds [OF a] and B = bitlen_powi_bounds [OF b]
  have bpos: "(0::rat) < of_int b" using b by simp
  have "\<bar>x\<bar> < 2 powi bitlen a / 2 powi (bitlen b - 1)"
    unfolding xab using A(2) B(1) a
    by (intro frac_less) (auto simp: zero_less_power_int)
  also have "\<dots> = 2 powi (k + 1)"
    by (simp add: k_def power_int_diff [symmetric] algebra_simps)
  finally have up: "\<bar>x\<bar> < 2 powi (k + 1)" .
  have "2 powi (bitlen a - 1) / 2 powi bitlen b < \<bar>x\<bar>"
    unfolding xab using A(1) B(2) bpos
    by (intro frac_less2) (auto simp: zero_less_power_int)
  then have lo: "2 powi (k - 1) < \<bar>x\<bar>"
    by (simp add: k_def power_int_diff [symmetric] algebra_simps)
  have bin: "binade x = (if 2 powi k \<le> \<bar>x\<bar> then k else k - 1)"
    by (simp add: binade_def q k_def Let_def)
  show "2 powi binade x \<le> \<bar>x\<bar>"
    using lo by (simp add: bin)
  show "\<bar>x\<bar> < 2 powi (binade x + 1)"
    using up by (simp add: bin)
qed

lemma binade_eqI:
  assumes "2 powi e \<le> \<bar>x\<bar>" and "\<bar>x\<bar> < 2 powi (e + 1)"
  shows "binade x = e"
proof -
  have "(0::rat) < 2 powi e" by (rule zero_less_power_int) simp
  then have "0 < \<bar>x\<bar>" using assms(1) by (rule less_le_trans)
  then have nz: "x \<noteq> 0" by simp
  note B = binade_bounds [OF nz]
  have "(2::rat) powi e < 2 powi (binade x + 1)"
    using assms(1) B(2) by simp
  then have 1: "e < binade x + 1"
    by (metis power_int_increasing linorder_not_less one_le_numeral)
  have "(2::rat) powi binade x < 2 powi (e + 1)"
    using assms(2) B(1) by simp
  then have 2: "binade x < e + 1"
    by (metis power_int_increasing linorder_not_less one_le_numeral)
  from 1 2 show ?thesis by simp
qed

lemma binade_minus: "binade (- x) = binade x"
  by (simp add: binade_def)

lemma round_half_even_ge: "of_int m \<le> q \<Longrightarrow> m \<le> round_half_even q"
proof -
  assume "of_int m \<le> q"
  then have "m \<le> \<lfloor>q\<rfloor>" by (simp add: le_floor_iff)
  then show ?thesis by (simp add: round_half_even_def Let_def)
qed

lemma round_half_even_le: "q \<le> of_int m \<Longrightarrow> round_half_even q \<le> m"
proof -
  assume h: "q \<le> of_int m"
  have f: "of_int \<lfloor>q\<rfloor> \<le> q" by (rule of_int_floor_le)
  from f h have "rat_of_int \<lfloor>q\<rfloor> \<le> of_int m" by (rule order_trans)
  then have fm: "\<lfloor>q\<rfloor> \<le> m" by (simp only: of_int_le_iff)
  have up: "\<lfloor>q\<rfloor> + 1 \<le> m" if "q \<noteq> of_int \<lfloor>q\<rfloor>"
  proof -
    from f that have "of_int \<lfloor>q\<rfloor> < q" by (metis order_le_less)
    from this h have "rat_of_int \<lfloor>q\<rfloor> < of_int m" by (rule less_le_trans)
    then have "\<lfloor>q\<rfloor> < m" by (simp only: of_int_less_iff)
    then show ?thesis by simp
  qed
  show ?thesis
  proof (cases "q = of_int \<lfloor>q\<rfloor>")
    case True
    then have "q - of_int \<lfloor>q\<rfloor> < 1 / 2" by simp
    then show ?thesis using fm by (simp add: round_half_even_def Let_def)
  next
    case False
    then show ?thesis using up fm by (simp add: round_half_even_def Let_def)
  qed
qed

lemma round_half_even_of_int: "round_half_even (of_int m) = m"
  by (simp add: round_half_even_def)

lemma round_half_even_minus: "round_half_even (- q) = - round_half_even q"
proof (cases "q = of_int \<lfloor>q\<rfloor>")
  case True
  then obtain n where "q = of_int n" ..
  then show ?thesis
    by (simp add: round_half_even_of_int flip: of_int_minus)
next
  case False
  then have nint: "q \<notin> \<int>"
    by (metis Ints_cases floor_of_int)
  have fl: "\<lfloor>- q\<rfloor> = - \<lfloor>q\<rfloor> - 1"
    using nint by (simp add: floor_minus ceiling_altdef) (metis Ints_of_int of_int_floor_cancel)
  have r1: "0 < q - of_int \<lfloor>q\<rfloor>"
    using False of_int_floor_le [of q] by (metis diff_gt_0_iff_gt order_le_less)
  show ?thesis
    using r1 by (auto simp: round_half_even_def Let_def fl algebra_simps)
qed

lemma f64_rne_minus: "f64_rne (- x) = - f64_rne x"
  by (simp add: f64_rne_def binade_minus Let_def round_half_even_minus)

lemma f64_rne_ge:
  assumes m: "\<bar>m\<bar> \<le> 2 ^ 53" and j: "- 1074 \<le> j" and le: "of_int m * 2 powi j \<le> x"
  shows "of_int m * 2 powi j \<le> f64_rne x"
proof (cases "x = 0")
  case True
  with le show ?thesis by (simp add: f64_rne_def)
next
  case False
  define e where "e = max (binade x) (- 1022)"
  define ulp :: rat where "ulp = 2 powi (e - 52)"
  have ulp: "0 < ulp" by (simp add: ulp_def zero_less_power_int)
  have rne: "f64_rne x = of_int (round_half_even (x / ulp)) * ulp"
    using False by (simp add: f64_rne_def e_def ulp_def Let_def)
  show ?thesis
  proof (cases "e - 52 \<le> j")
    case True
    define k where "k = nat (j - (e - 52))"
    have pj: "(2::rat) powi j = of_int (2 ^ k) * ulp"
    proof -
      have "(2::rat) powi j = 2 powi (int k + (e - 52))"
        using True by (simp add: k_def)
      also have "\<dots> = 2 powi int k * 2 powi (e - 52)"
        by (rule power_int_add) simp
      finally show ?thesis by (simp add: ulp_def)
    qed
    have "of_int (m * 2 ^ k) * ulp \<le> x"
      using le by (simp add: pj mult.assoc)
    then have "of_int (m * 2 ^ k) \<le> x / ulp"
      using ulp by (simp add: pos_le_divide_eq)
    then have "m * 2 ^ k \<le> round_half_even (x / ulp)"
      by (rule round_half_even_ge)
    then have "rat_of_int (m * 2 ^ k) \<le> of_int (round_half_even (x / ulp))"
      by (simp only: of_int_le_iff)
    then have "of_int (m * 2 ^ k) * ulp \<le> of_int (round_half_even (x / ulp)) * ulp"
      using ulp by (simp only: mult_le_cancel_right_pos)
    then show ?thesis
      by (simp add: rne pj mult.assoc)
  next
    case False
    then have ej: "j + 53 \<le> e" by simp
    with j have eb: "e = binade x" by (simp add: e_def)
    have lo: "2 powi e \<le> \<bar>x\<bar>"
      unfolding eb using \<open>x \<noteq> 0\<close> by (rule binade_bounds)
    have "\<bar>rat_of_int m * 2 powi j\<bar> = of_int \<bar>m\<bar> * 2 powi j"
      by (simp add: abs_mult power_int_abs)
    also have "\<dots> \<le> of_int (2 ^ 53) * 2 powi j"
      using m by (intro mult_right_mono) (simp_all only: of_int_le_iff zero_le_power_int zero_le_numeral)
    also have "\<dots> = 2 powi (53 + j)"
      by (simp add: power_int_add)
    also have "\<dots> \<le> 2 powi e"
      using ej by (intro power_int_increasing) simp_all
    finally have ab: "\<bar>rat_of_int m * 2 powi j\<bar> \<le> 2 powi e" .
    have pe: "(2::rat) powi e = of_int (2 ^ 52) * ulp"
    proof -
      have "(2::rat) powi e = 2 powi (52 + (e - 52))" by simp
      also have "\<dots> = 2 powi 52 * 2 powi (e - 52)"
        by (rule power_int_add) simp
      finally show ?thesis by (simp add: ulp_def)
    qed
    show ?thesis
    proof (cases "0 < x")
      case True
      with lo have "of_int (2 ^ 52) * ulp \<le> x" by (simp add: pe)
      then have "of_int (2 ^ 52) \<le> x / ulp"
        using ulp by (simp add: pos_le_divide_eq)
      then have "2 ^ 52 \<le> round_half_even (x / ulp)"
        by (rule round_half_even_ge)
      then have "rat_of_int (2 ^ 52) \<le> of_int (round_half_even (x / ulp))"
        by (simp only: of_int_le_iff)
      then have "of_int (2 ^ 52) * ulp \<le> of_int (round_half_even (x / ulp)) * ulp"
        using ulp by (simp only: mult_le_cancel_right_pos)
      then have "2 powi e \<le> f64_rne x"
        by (simp only: rne pe)
      with ab show ?thesis by linarith
    next
      case False
      with \<open>x \<noteq> 0\<close> have neg: "x < 0" by simp
      with le lo ab have xe: "x = - (2 powi e)" by linarith
      then have "x / ulp = of_int (- (2 ^ 52))"
        using ulp by (simp add: pe)
      then have "round_half_even (x / ulp) = - (2 ^ 52)"
        by (simp only: round_half_even_of_int)
      then have "f64_rne x = of_int (- (2 ^ 52)) * ulp"
        by (simp only: rne)
      also have "\<dots> = - (2 powi e)"
        by (simp add: pe)
      finally show ?thesis using le xe by linarith
    qed
  qed
qed

lemma f64_rne_le:
  assumes "\<bar>m\<bar> \<le> 2 ^ 53" and "- 1074 \<le> j" and "x \<le> of_int m * 2 powi j"
  shows "f64_rne x \<le> of_int m * 2 powi j"
proof -
  have "of_int (- m) * 2 powi j \<le> f64_rne (- x)"
    using assms by (intro f64_rne_ge) simp_all
  then show ?thesis by (simp add: f64_rne_minus)
qed

lemma f64_rne_exact:
  assumes "\<bar>m\<bar> \<le> 2 ^ 53" and "- 1074 \<le> j"
  shows "f64_rne (of_int m * 2 powi j) = of_int m * 2 powi j"
  using f64_rne_ge [OF assms order_refl] f64_rne_le [OF assms order_refl] by simp

lemma f64_rne_ge_int: "\<bar>m\<bar> \<le> 2 ^ 53 \<Longrightarrow> of_int m \<le> x \<Longrightarrow> of_int m \<le> f64_rne x"
  using f64_rne_ge [of m 0 x] by simp

lemma f64_rne_le_int: "\<bar>m\<bar> \<le> 2 ^ 53 \<Longrightarrow> x \<le> of_int m \<Longrightarrow> f64_rne x \<le> of_int m"
  using f64_rne_le [of m 0 x] by simp

lemma f64_rne_of_int: "\<bar>m\<bar> \<le> 2 ^ 53 \<Longrightarrow> f64_rne (of_int m) = of_int m"
  using f64_rne_exact [of m 0] by simp

lemma f64_rne_abs_le_int:
  assumes "0 \<le> n" and "n \<le> 2 ^ 53" and "\<bar>x\<bar> \<le> of_int n"
  shows "\<bar>f64_rne x\<bar> \<le> of_int n"
proof -
  have "of_int (- n) \<le> x" and "x \<le> of_int n"
    using assms(3) by simp_all
  moreover have "\<bar>- n\<bar> \<le> 2 ^ 53" and "\<bar>n\<bar> \<le> 2 ^ 53"
    using assms(1,2) by simp_all
  ultimately have "of_int (- n) \<le> f64_rne x" and "f64_rne x \<le> of_int n"
    by (simp_all only: f64_rne_ge_int f64_rne_le_int)
  then show ?thesis by simp
qed

lemma f64_round_bounded:
  assumes "0 \<le> n" and "n \<le> 2 ^ 53" and "\<bar>x\<bar> \<le> of_int n"
  shows "f64_round x = Finite (f64_rne x)"
proof -
  have "\<bar>f64_rne x\<bar> \<le> of_int n"
    using assms by (rule f64_rne_abs_le_int)
  also have "rat_of_int n \<le> of_int (2 ^ 53)"
    using assms(2) by (simp only: of_int_le_iff)
  also have "rat_of_int (2 ^ 53) < 2 ^ 1024" by simp
  finally show ?thesis by (simp add: f64_round_def Let_def)
qed

lemma f64_round_dyadic:
  assumes "\<bar>m\<bar> \<le> 2 ^ 53" and "- 1074 \<le> j" and "j \<le> 970"
  shows "f64_round (of_int m * 2 powi j) = Finite (of_int m * 2 powi j)"
proof -
  have "\<bar>rat_of_int m * 2 powi j\<bar> = of_int \<bar>m\<bar> * 2 powi j"
    by (simp add: abs_mult power_int_abs)
  also have "\<dots> \<le> of_int (2 ^ 53) * 2 powi j"
    using assms(1) by (intro mult_right_mono) (simp_all only: of_int_le_iff zero_le_power_int zero_le_numeral)
  also have "\<dots> = 2 powi (53 + j)"
    by (simp add: power_int_add)
  also have "\<dots> \<le> 2 powi 1023"
    using assms(3) by (intro power_int_increasing) simp_all
  also have "\<dots> < 2 ^ 1024" by simp
  finally show ?thesis
    by (simp add: f64_round_def f64_rne_exact [OF assms(1,2)])
qed

lemma f64_round_of_int: "\<bar>m\<bar> \<le> 2 ^ 53 \<Longrightarrow> f64_round (of_int m) = Finite (of_int m)"
  using f64_round_dyadic [of m 0] by simp

lemma f64_round_in_binade:
  assumes "2 powi e \<le> \<bar>x\<bar>" and "\<bar>x\<bar> < 2 powi (e + 1)" and "- 1022 \<le> e"
    and "round_half_even (x / 2 powi (e - 52)) = n"
    and "\<bar>of_int n * 2 powi (e - 52)\<bar> < (2::rat) ^ 1024"
  shows "f64_round x = Finite (of_int n * 2 powi (e - 52))"
proof -
  have b: "binade x = e" using assms(1,2) by (rule binade_eqI)
  have "(0::rat) < 2 powi e" by (rule zero_less_power_int) simp
  then have "0 < \<bar>x\<bar>" using assms(1) by (rule less_le_trans)
  then have nz: "x \<noteq> 0" by simp
  have "f64_rne x = of_int n * 2 powi (e - 52)"
    using nz assms(3,4) by (simp add: f64_rne_def b Let_def max_def)
  then show ?thesis using assms(5) by (simp add: f64_round_def)
qed

lemma round_half_even_fraction:
  assumes "0 < b"
  shows "round_half_even (of_int a / of_int b) =
           (if 2 * (a mod b) < b then a div b
            else if b < 2 * (a mod b) then a div b + 1
            else if even (a div b) then a div b else a div b + 1)"
proof -
  have fl: "\<lfloor>rat_of_int a / of_int b\<rfloor> = a div b"
    by (rule floor_divide_of_int_eq)
  have bpos: "(0::rat) < of_int b" using assms by simp
  have "rat_of_int a = of_int (a div b * b + a mod b)" by simp
  also have "\<dots> = of_int (a div b) * of_int b + of_int (a mod b)"
    by (simp only: of_int_add of_int_mult)
  finally have "rat_of_int a / of_int b = of_int (a div b) + of_int (a mod b) / of_int b"
    using bpos by (simp add: field_simps)
  then have fr: "rat_of_int a / of_int b - of_int (a div b) = of_int (a mod b) / of_int b"
    by simp
  have lt: "rat_of_int (a mod b) / of_int b < 1 / 2 \<longleftrightarrow> 2 * (a mod b) < b"
  proof -
    have "rat_of_int (a mod b) / of_int b < 1 / 2 \<longleftrightarrow> rat_of_int (2 * (a mod b)) < of_int b"
      using bpos by (simp add: field_simps)
    then show ?thesis by (simp only: of_int_less_iff)
  qed
  have gt: "1 / 2 < rat_of_int (a mod b) / of_int b \<longleftrightarrow> b < 2 * (a mod b)"
  proof -
    have "1 / 2 < rat_of_int (a mod b) / of_int b \<longleftrightarrow> rat_of_int b < of_int (2 * (a mod b))"
      using bpos by (simp add: field_simps)
    then show ?thesis by (simp only: of_int_less_iff)
  qed
  show ?thesis
    unfolding round_half_even_def Let_def fl fr lt gt by simp
qed

lemma truncate_rat_fraction:
  "0 \<le> a \<Longrightarrow> 0 < b \<Longrightarrow> truncate_rat (of_int a / of_int b) = a div b"
  by (simp add: truncate_rat_def floor_divide_of_int_eq)

section \<open>Delays without overflow\<close>

text \<open>
  Where the product fits an \<^verbatim>\<open>int64\<close>, \<^verbatim>\<open>Linear\<close> and \<^verbatim>\<open>Exponential\<close> return it
  exactly; where every integer involved is at most \<open>2 ^ 53\<close>, the jitter of a constant
  stays between the rounded ends of its interval.
\<close>

lemma sint_word_of_int_64:
  "- (2 ^ 63) \<le> k \<Longrightarrow> k < 2 ^ 63 \<Longrightarrow> sint (word_of_int k :: 64 word) = k"
  by (simp add: sint_sbintrunc' signed_take_bit_int_eq_self)

lemma duration_mult_sint: "(a :: 64 word) * b = word_of_int (sint a * sint b)"
  by simp

lemma Linear_Delay_exact:
  assumes "- (2 ^ 63) \<le> sint base * n" and "sint base * n < 2 ^ 63"
  shows "sint (fst (Delay (Linear base) n rt)) = sint base * n"
proof -
  have eq: "base * word_of_int n = word_of_int (sint base * n)" by simp
  have "sint (base * word_of_int n) = sint base * n"
    unfolding eq using assms by (rule sint_word_of_int_64)
  then show ?thesis by (simp only: Delay.simps fst_conv)
qed

lemma Exponential_Delay_exact:
  assumes "1 \<le> n" and "n \<le> 62"
    and "- (2 ^ 63) \<le> sint base * 2 ^ nat (n - 1)" and "sint base * 2 ^ nat (n - 1) < 2 ^ 63"
  shows "sint (fst (Delay (Exponential base) n rt)) = sint base * 2 ^ nat (n - 1)"
proof -
  have eq: "base * push_bit (nat (n - 1)) 1 = word_of_int (sint base * 2 ^ nat (n - 1))"
    by (simp add: push_bit_eq_mult)
  have "sint (base * push_bit (nat (n - 1)) 1) = sint base * 2 ^ nat (n - 1)"
    unfolding eq using assms(3,4) by (rule sint_word_of_int_64)
  moreover have "Delay (Exponential base) n rt = (base * push_bit (nat (n - 1)) 1, rt)"
    using assms(1,2) by (simp only: Delay.simps) simp
  ultimately show ?thesis by (simp only: fst_conv)
qed

lemma sint_MaxInt64: "sint MaxInt64 = 2 ^ 63 - 1"
  by (simp add: MaxInt64_def)

lemma Exponential_Delay_guarded:
  "n \<le> 0 \<Longrightarrow> Delay (Exponential base) n rt = (base, rt)"
  "62 < n \<Longrightarrow> Delay (Exponential base) n rt = (MaxInt64, rt)"
  by simp_all

lemma f64_round_between:
  assumes "\<bar>lo\<bar> \<le> 2 ^ 53" and "\<bar>hi\<bar> \<le> 2 ^ 53" and "of_int lo \<le> x" and "x \<le> of_int hi"
  obtains y where "f64_round x = Finite y" and "of_int lo \<le> y" and "y \<le> of_int hi"
proof -
  have lo: "of_int lo \<le> f64_rne x"
    using assms(1,3) by (rule f64_rne_ge_int)
  have hi: "f64_rne x \<le> of_int hi"
    using assms(2,4) by (rule f64_rne_le_int)
  have "rat_of_int (- (2 ^ 53)) \<le> of_int lo" and "rat_of_int hi \<le> of_int (2 ^ 53)"
    using assms(1,2) by (simp_all only: of_int_le_iff)
  with lo hi have "\<bar>f64_rne x\<bar> \<le> 2 ^ 53" by simp
  also have "\<dots> < (2::rat) ^ 1024" by simp
  finally have "f64_round x = Finite (f64_rne x)"
    by (simp add: f64_round_def Let_def)
  with lo hi that show thesis by blast
qed

lemma WithJitter_Constant_bounds:
  assumes f: "0 < f" "f \<le> 1"
    and d: "0 \<le> sint d" "sint d \<le> 2 ^ 52"
    and r: "0 \<le> draws rt 0" "draws rt 0 < 1"
  shows "\<lfloor>of_int (sint d) * (1 - f)\<rfloor> \<le> sint (fst (Delay (WithJitter (Finite f) (Constant d)) n rt))"
    and "sint (fst (Delay (WithJitter (Finite f) (Constant d)) n rt)) \<le> \<lceil>of_int (sint d) * (1 + f)\<rceil>"
proof -
  define D where "D = sint d"
  define K where "K = \<lceil>rat_of_int D * f\<rceil>"
  have D: "0 \<le> D" "D \<le> 2 ^ 52" using d by (simp_all add: D_def)
  have Df0: "0 \<le> rat_of_int D * f" using D f by simp
  have DfD: "rat_of_int D * f \<le> of_int D" using D f by (simp add: mult_left_le)
  have K: "0 \<le> K" "K \<le> D"
    using Df0 DfD by (simp_all add: K_def ceiling_le_iff)
  have DfK: "rat_of_int D * f \<le> of_int K" by (simp add: K_def)
  \<comment> \<open>float64(d)\<close>
  have fd: "f64_of_duration d = Finite (of_int D)"
  proof -
    have "f64_round (of_int D) = Finite (f64_rne (of_int D))"
      using D by (intro f64_round_bounded [of D]) simp_all
    moreover have "f64_rne (rat_of_int D) = of_int D"
      using D by (intro f64_rne_of_int) simp
    ultimately show ?thesis by (simp add: f64_of_duration_def D_def)
  qed
  \<comment> \<open>jitterRange\<close>
  obtain R where R: "f64_round (of_int D * f) = Finite R" "of_int 0 \<le> R" "R \<le> of_int K"
    using K D Df0 DfK by (auto intro: f64_round_between [of 0 K "of_int D * f"])
  \<comment> \<open>rand.Float64()*2 - 1\<close>
  obtain r2 where r2: "f64_round (draws rt 0 * 2) = Finite r2" "of_int 0 \<le> r2" "r2 \<le> of_int 2"
    using r by (auto intro: f64_round_between [of 0 2 "draws rt 0 * 2"])
  obtain u where u: "f64_round (r2 - 1) = Finite u" "of_int (- 1) \<le> u" "u \<le> of_int 1"
    using r2 by (auto intro: f64_round_between [of "- 1" 1 "r2 - 1"])
  \<comment> \<open>jitter\<close>
  have uR: "\<bar>u * R\<bar> \<le> of_int K"
  proof -
    have "\<bar>u * R\<bar> = \<bar>u\<bar> * R" using R(2) by (simp add: abs_mult)
    also have "\<dots> \<le> 1 * R" using u R(2) by (intro mult_right_mono) simp_all
    finally show ?thesis using R(3) by simp
  qed
  obtain j where j: "f64_round (u * R) = Finite j" "of_int (- K) \<le> j" "j \<le> of_int K"
    using uR K D by (auto intro: f64_round_between [of "- K" K "u * R"])
  \<comment> \<open>float64(d) + jitter\<close>
  obtain s where s: "f64_round (of_int D + j) = Finite s" "of_int (D - K) \<le> s" "s \<le> of_int (D + K)"
    using j K D by (auto intro: f64_round_between [of "D - K" "D + K" "of_int D + j"])
  define t where "t = truncate_rat s"
  have s0: "0 \<le> s" using s(2) K by (metis diff_ge_0_iff_ge of_int_0_le_iff order_trans)
  have t: "D - K \<le> t" "t \<le> D + K"
    using s s0 by (simp_all add: t_def truncate_rat_def le_floor_iff floor_le_iff)
  have tr: "- (2 ^ 63) \<le> t" "t < 2 ^ 63" "0 \<le> t"
    using t K D by simp_all
  have st: "sint (word_of_int t :: 64 word) = t"
    using tr(1,2) by (rule sint_word_of_int_64)
  have res: "fst (Delay (WithJitter (Finite f) (Constant d)) n rt) = word_of_int t"
    using f(1) tr st
    by (simp add: fd R(1) r2(1) u(1) j(1) s(1) rand_Float64_def f64_sub_def Let_def split_def
          flip: t_def)
  have lo: "\<lfloor>rat_of_int D * (1 - f)\<rfloor> = D - K"
  proof -
    have "rat_of_int D * (1 - f) = of_int D + - (of_int D * f)"
      by (simp add: algebra_simps)
    then have "\<lfloor>rat_of_int D * (1 - f)\<rfloor> = D + \<lfloor>- (rat_of_int D * f)\<rfloor>"
      by (simp only: int_add_floor)
    then show ?thesis by (simp add: K_def ceiling_def)
  qed
  have hi: "\<lceil>rat_of_int D * (1 + f)\<rceil> = D + K"
  proof -
    have "rat_of_int D * (1 + f) = of_int D * f + of_int D"
      by (simp add: algebra_simps)
    then show ?thesis by (simp only: ceiling_add_of_int K_def)
  qed
  show "\<lfloor>of_int (sint d) * (1 - f)\<rfloor> \<le> sint (fst (Delay (WithJitter (Finite f) (Constant d)) n rt))"
    using t(1) by (simp only: res st lo flip: D_def)
  show "sint (fst (Delay (WithJitter (Finite f) (Constant d)) n rt)) \<le> \<lceil>of_int (sint d) * (1 + f)\<rceil>"
    using t(2) by (simp only: res st hi flip: D_def)
qed

lemma WithJitter_no_factor:
  "f64_le factor (Finite 0) \<Longrightarrow> Delay (WithJitter factor b) n rt = Delay b n rt"
  by (simp add: split_def)

lemma WithJitter_large_duration:
  "sint (fst (Delay (WithJitter (Finite (1 / 1152921504606846976)) (Constant 18014398509481990)) 1
               (constant_draws (1 / 2)))) = 18014398509481992 \<and>
   18014398509481990 * (1 + 1 / 1152921504606846976) + 1 < (18014398509481992::rat)"
proof (intro conjI)
  show "18014398509481990 * (1 + 1 / 1152921504606846976) + 1 < (18014398509481992::rat)"
    by simp
  have d: "f64_of_duration 18014398509481990 = Finite 18014398509481992"
    using f64_round_in_binade [of 54 18014398509481990 4503599627370498]
      round_half_even_fraction [of 2 9007199254740995]
    by (simp add: f64_of_duration_def)
  have jr: "f64_mul (Finite 18014398509481992) (Finite (1 / 1152921504606846976)) =
            Finite (2251799813685249 / 144115188075855872)"
    using f64_round_dyadic [of 2251799813685249 "- 57"] by simp
  have r2: "f64_mul (Finite (1 / 2)) (Finite 2) = Finite 1"
    using f64_round_of_int [of 1] by simp
  have u: "f64_add (Finite 1) (Finite (- 1)) = Finite 0"
    using f64_round_of_int [of 0] by simp
  have j: "f64_mul (Finite 0) (Finite (2251799813685249 / 144115188075855872)) = Finite 0"
    using f64_round_of_int [of 0] by simp
  have s: "f64_add (Finite 18014398509481992) (Finite 0) = Finite 18014398509481992"
    using f64_round_dyadic [of 2251799813685249 3] by simp
  show "sint (fst (Delay (WithJitter (Finite (1 / 1152921504606846976)) (Constant 18014398509481990)) 1
               (constant_draws (1 / 2)))) = 18014398509481992"
    by (simp add: d jr r2 u j s rand_Float64_def constant_draws_def f64_sub_def
          truncate_rat_def Let_def del: f64_mul.simps f64_add.simps)
qed

section \<open>Walking an error chain\<close>

text \<open>
  Every error matches itself, a joined error matches each of its parts, and
  \<^verbatim>\<open>errors.As\<close> finds a marker exactly when the chain contains one.
\<close>

lemma errors_Is_refl: "errors_Is e e"
  by (cases e) simp_all

lemma errors_Is_list_member: "e \<in> set es \<Longrightarrow> errors_Is_list es e"
  by (induction es) (auto simp: errors_Is_refl)

lemma joinErrors_matches_each:
  assumes "es \<noteq> []"
  obtains r where "joinErrors es = Some r" and "\<And>e. e \<in> set es \<Longrightarrow> errors_Is r e"
proof (cases "length es = 1")
  case True
  then obtain e where "es = [e]"
    by (cases es) simp_all
  then show ?thesis
    using that [of e] by (simp add: joinErrors_def errors_Is_refl)
next
  case False
  then show ?thesis
    using assms that [of "Joined es"]
    by (simp add: joinErrors_def errors_Join_def errors_Is_list_member)
qed

lemma errors_As_stopError_Some:
  "errors_As_stopError e = Some m \<Longrightarrow> \<exists>c. m = StopErr c \<and> errors_Is e (StopErr c)"
  "errors_As_stopError_list es = Some m \<Longrightarrow> \<exists>c. m = StopErr c \<and> errors_Is_list es (StopErr c)"
  by (induction e and es rule: errors_As_stopError_errors_As_stopError_list.induct)
     (auto split: option.splits)

lemma errors_As_stopError_None:
  "errors_As_stopError e = None \<Longrightarrow> \<not> errors_Is e (StopErr c)"
  "errors_As_stopError_list es = None \<Longrightarrow> \<not> errors_Is_list es (StopErr c)"
  by (induction e and es rule: errors_As_stopError_errors_As_stopError_list.induct)
     (auto split: option.splits)

lemma errors_As_stopError_wrapped:
  "errors_As_stopError (foldr Wrapped ws (StopErr c)) = Some (StopErr c)"
  by (induction ws) simp_all

section \<open>One iteration and the whole loop\<close>

text \<open>
  The loop is unfolded one iteration at a time: what an iteration adds to the trace
  and to the recorded errors, and what follows for a whole run by induction over the
  loop.
\<close>

declare loop.simps [simp del]

lemmas step_defs = attempt_body_def after_failure_def delay_and_sleep_def clamp_delay_def
  exhausted_def return_recorded_def call_fn_def call_Now_def call_Sleep_def call_Delay_def
  call_onRetry_def call_onExhausted_def call_onSuccess_def record_error_def

lemma loop_Return:
  "attempt_body fn cfg maxA deadline st = Return out \<Longrightarrow> loop fn cfg maxA deadline st = out"
  by (subst loop.simps) simp

lemma loop_Continue:
  "attempt_body fn cfg maxA deadline st = Continue st' \<Longrightarrow>
   loop fn cfg maxA deadline st = loop fn cfg maxA deadline (st'\<lparr>attempt := attempt st' + 1\<rparr>)"
  by (subst loop.simps) simp

lemma failures_append [simp]: "failures (xs @ ys) = failures xs @ failures ys"
  by (simp add: failures_def)
lemma operation_calls_append [simp]: "operation_calls (xs @ ys) = operation_calls xs @ operation_calls ys"
  by (simp add: operation_calls_def)
lemma trace_projections_Cons [simp]:
  "failures (ev # tr) = (case ev of Called a (Some e) \<Rightarrow> [e] | _ \<Rightarrow> []) @ failures tr"
  "operation_calls (ev # tr) = (case ev of Called a r \<Rightarrow> [a] | _ \<Rightarrow> []) @ operation_calls tr"
  by (simp_all add: failures_def operation_calls_def)

lemma trace_projections_Nil [simp]:
  "failures [] = []" "operation_calls [] = []"
  by (simp_all add: failures_def operation_calls_def)

lemma attempt_body_Continue:
  assumes "attempt_body fn cfg maxA deadline st = Continue st'"
  shows "attempt st' = attempt st" and "attempt st < maxA"
    and "operation_calls (trace st') = operation_calls (trace st) @ [attempt st]"
    and "\<exists>e. failures (trace st') = failures (trace st) @ [e] \<and>
           errs st' = (if allErrors cfg then errs st @ [e] else errs st) \<and>
           lastErr st' = (if allErrors cfg then lastErr st else Some e)"
  using assms
  by (auto simp: step_defs Let_def split: prod.splits option.splits if_splits)

lemma attempt_body_Return:
  assumes "attempt_body fn cfg maxA deadline st = Return out"
  shows "attempt (final out) = attempt st"
    and "operation_calls (trace (final out)) = operation_calls (trace st) @ [attempt st]"
    and "exit_via out \<noteq> Success \<Longrightarrow> exit_via out \<noteq> Stopped \<Longrightarrow>
           returned out = recorded cfg (final out) \<and>
           (\<exists>e. failures (trace (final out)) = failures (trace st) @ [e] \<and>
             errs (final out) = (if allErrors cfg then errs st @ [e] else errs st) \<and>
             lastErr (final out) = (if allErrors cfg then lastErr st else Some e))"
  using assms
  by (auto simp: step_defs Let_def split: prod.splits option.splits if_splits)

lemma attempt_body_Stopped:
  assumes "fn (world st) = (Some e, w1)" and "errors_As_stopError e = Some (StopErr c)"
  shows "attempt_body fn cfg maxA deadline st =
           Return \<lparr>returned = Some c, exit_via = Stopped,
                   final = st\<lparr>world := w1, trace := trace st @ [Called (attempt st) (Some e)]\<rparr>\<rparr>"
  using assms by (simp add: attempt_body_def call_fn_def)

lemma loop_counts:
  "attempt st \<le> attempt (final (loop fn cfg maxA deadline st)) \<and>
   attempt (final (loop fn cfg maxA deadline st)) \<le> max maxA (attempt st) \<and>
   operation_calls (trace (final (loop fn cfg maxA deadline st))) =
     operation_calls (trace st) @ [attempt st .. attempt (final (loop fn cfg maxA deadline st))]"
proof (induction fn cfg maxA deadline st rule: loop.induct)
  case (1 fn cfg maxA deadline st)
  show ?case
  proof (cases "attempt_body fn cfg maxA deadline st")
    case (Return out)
    then show ?thesis
      by (simp add: loop_Return attempt_body_Return(1,2))
  next
    case (Continue st')
    note B = attempt_body_Continue [OF Continue]
    note IH = "1.IH" [OF Continue]
    show ?thesis
      using IH B(1,2,3) by (simp add: loop_Continue [OF Continue] upto_rec1 [of "attempt st"])
  qed
qed

lemma loop_recorded:
  assumes "records_failures cfg st"
    and "exit_via (loop fn cfg maxA deadline st) \<noteq> Success"
    and "exit_via (loop fn cfg maxA deadline st) \<noteq> Stopped"
  shows "returned (loop fn cfg maxA deadline st) = recorded cfg (final (loop fn cfg maxA deadline st)) \<and>
         records_failures cfg (final (loop fn cfg maxA deadline st)) \<and>
         failures (trace (final (loop fn cfg maxA deadline st))) \<noteq> []"
  using assms
proof (induction fn cfg maxA deadline st rule: loop.induct)
  case (1 fn cfg maxA deadline st)
  show ?case
  proof (cases "attempt_body fn cfg maxA deadline st")
    case (Return out)
    with "1.prems" have x: "exit_via out \<noteq> Success" "exit_via out \<noteq> Stopped"
      by (simp_all add: loop_Return)
    from attempt_body_Return(3) [OF Return x] "1.prems"(1) show ?thesis
      by (auto simp: loop_Return [OF Return] records_failures_def)
  next
    case (Continue st')
    from attempt_body_Continue(4) [OF Continue] "1.prems"(1)
    have "records_failures cfg (st'\<lparr>attempt := attempt st' + 1\<rparr>)"
      by (auto simp: records_failures_def)
    with "1.IH" [OF Continue] "1.prems"(2,3) show ?thesis
      by (simp add: loop_Continue [OF Continue])
  qed
qed

lemma maxAttempts_update_steps:
  "call_onSuccess (cfg\<lparr>maxAttempts := k\<rparr>) = call_onSuccess cfg"
  "call_onExhausted (cfg\<lparr>maxAttempts := k\<rparr>) = call_onExhausted cfg"
  "call_onRetry (cfg\<lparr>maxAttempts := k\<rparr>) = call_onRetry cfg"
  "call_Now (cfg\<lparr>maxAttempts := k\<rparr>) = call_Now cfg"
  "call_Sleep (cfg\<lparr>maxAttempts := k\<rparr>) = call_Sleep cfg"
  "call_Delay (cfg\<lparr>maxAttempts := k\<rparr>) = call_Delay cfg"
  "record_error (cfg\<lparr>maxAttempts := k\<rparr>) = record_error cfg"
  "recorded (cfg\<lparr>maxAttempts := k\<rparr>) = recorded cfg"
  "rejects (cfg\<lparr>maxAttempts := k\<rparr>) = rejects cfg"
  by (simp_all add: fun_eq_iff call_onSuccess_def call_onExhausted_def call_onRetry_def
        call_Now_def call_Sleep_def call_Delay_def record_error_def recorded_def rejects_def)

lemma maxAttempts_update_stages:
  "exhausted (cfg\<lparr>maxAttempts := k\<rparr>) = exhausted cfg"
  "return_recorded (cfg\<lparr>maxAttempts := k\<rparr>) = return_recorded cfg"
  "clamp_delay (cfg\<lparr>maxAttempts := k\<rparr>) = clamp_delay cfg"
  "delay_and_sleep (cfg\<lparr>maxAttempts := k\<rparr>) = delay_and_sleep cfg"
  "after_failure (cfg\<lparr>maxAttempts := k\<rparr>) = after_failure cfg"
proof -
  show 1: "return_recorded (cfg\<lparr>maxAttempts := k\<rparr>) = return_recorded cfg"
    by (simp add: fun_eq_iff return_recorded_def maxAttempts_update_steps)
  show 2: "exhausted (cfg\<lparr>maxAttempts := k\<rparr>) = exhausted cfg"
    by (simp add: fun_eq_iff exhausted_def maxAttempts_update_steps 1)
  show 3: "clamp_delay (cfg\<lparr>maxAttempts := k\<rparr>) = clamp_delay cfg"
    by (simp add: fun_eq_iff clamp_delay_def maxAttempts_update_steps)
  show 4: "delay_and_sleep (cfg\<lparr>maxAttempts := k\<rparr>) = delay_and_sleep cfg"
    unfolding fun_eq_iff delay_and_sleep_def maxAttempts_update_steps 1 2 3 Let_def by simp
  show "after_failure (cfg\<lparr>maxAttempts := k\<rparr>) = after_failure cfg"
    unfolding fun_eq_iff after_failure_def maxAttempts_update_steps 1 2 4 Let_def by simp
qed

lemma attempt_body_maxAttempts_update:
  "attempt_body fn (cfg\<lparr>maxAttempts := k\<rparr>) maxA deadline st = attempt_body fn cfg maxA deadline st"
  unfolding attempt_body_def maxAttempts_update_steps maxAttempts_update_stages Let_def by simp

lemma loop_maxAttempts_update:
  "loop fn (cfg\<lparr>maxAttempts := k\<rparr>) maxA deadline st = loop fn cfg maxA deadline st"
proof (induction fn cfg maxA deadline st rule: loop.induct)
  case (1 fn cfg maxA deadline st)
  show ?case
  proof (cases "attempt_body fn cfg maxA deadline st")
    case (Return out)
    then show ?thesis
      by (simp add: loop_Return attempt_body_maxAttempts_update)
  next
    case (Continue st')
    then have "attempt_body fn (cfg\<lparr>maxAttempts := k\<rparr>) maxA deadline st = Continue st'"
      by (simp add: attempt_body_maxAttempts_update)
    then show ?thesis
      using "1.IH" [OF Continue] by (simp add: loop_Continue Continue)
  qed
qed

lemma set_deadline_state:
  "attempt (snd (set_deadline cfg w rt)) = 1"
  "trace (snd (set_deadline cfg w rt)) = []"
  "errs (snd (set_deadline cfg w rt)) = []"
  "lastErr (snd (set_deadline cfg w rt)) = None"
  "rts (snd (set_deadline cfg w rt)) = rt"
  by (simp_all add: set_deadline_def initial_state_def call_Now_def split_def Let_def)

lemma execute_loop:
  "execute fn cfg w rt =
     loop fn cfg (attempt_budget cfg) (fst (set_deadline cfg w rt)) (snd (set_deadline cfg w rt))"
  by (simp add: execute_def split_def Let_def)

lemma loop_Stopped:
  assumes "fn (world st) = (Some e, w1)" and "errors_As_stopError e = Some (StopErr c)"
  shows "loop fn cfg maxA deadline st =
           \<lparr>returned = Some c, exit_via = Stopped,
            final = st\<lparr>world := w1, trace := trace st @ [Called (attempt st) (Some e)]\<rparr>\<rparr>"
  using attempt_body_Stopped [where fn = fn and st = st, OF assms] by (rule loop_Return)

text \<open>
  One failed attempt along each path of the loop body, with the outcome or the next
  state written out field by field: the world is the one the hooks and the clock
  return, the runtime the one the strategy returns.
\<close>

lemma attempt_body_exhausted_attempts:
  assumes "fn (world st) = (Some e, w1)" and "errors_As_stopError e = None"
    and "maxA \<le> attempt st"
  shows "attempt_body fn cfg maxA deadline st =
     Return \<lparr>returned = (if allErrors cfg then joinErrors (errs st @ [e]) else Some e),
             exit_via = Exhausted,
             final = \<lparr>lastErr = (if allErrors cfg then lastErr st else Some e),
                      errs = (if allErrors cfg then errs st @ [e] else errs st),
                      attempt = attempt st,
                      world = (case onExhausted cfg of None \<Rightarrow> w1 | Some h \<Rightarrow> h (attempt st) e w1),
                      rts = rts st,
                      trace = trace st @ [Called (attempt st) (Some e)] @
                        (case onExhausted cfg of None \<Rightarrow> []
                         | Some h \<Rightarrow> [ExhaustedHook (attempt st) e])\<rparr>\<rparr>"
  using assms
  by (cases st) (simp add: step_defs recorded_def Let_def split: option.splits)

lemma attempt_body_rejected:
  assumes "fn (world st) = (Some e, w1)" and "errors_As_stopError e = None"
    and "attempt st < maxA" and "condition cfg = Some c" and "\<not> c e"
  shows "attempt_body fn cfg maxA deadline st =
     Return \<lparr>returned = (if allErrors cfg then joinErrors (errs st @ [e]) else Some e),
             exit_via = ConditionRejected,
             final = \<lparr>lastErr = (if allErrors cfg then lastErr st else Some e),
                      errs = (if allErrors cfg then errs st @ [e] else errs st),
                      attempt = attempt st, world = w1, rts = rts st,
                      trace = trace st @ [Called (attempt st) (Some e)]\<rparr>\<rparr>"
  using assms
  by (cases st) (simp add: step_defs recorded_def rejects_def Let_def split: option.splits)

lemma attempt_body_past_deadline:
  assumes "fn (world st) = (Some e, w1)" and "errors_As_stopError e = None"
    and "attempt st < maxA" and "\<forall>c. condition cfg = Some c \<longrightarrow> c e"
    and "0 < sint (maxDuration cfg)" and "clock_Now cfg w1 = (now, w2)" and "deadline < now"
  shows "attempt_body fn cfg maxA deadline st =
     Return \<lparr>returned = (if allErrors cfg then joinErrors (errs st @ [e]) else Some e),
             exit_via = Exhausted,
             final = \<lparr>lastErr = (if allErrors cfg then lastErr st else Some e),
                      errs = (if allErrors cfg then errs st @ [e] else errs st),
                      attempt = attempt st,
                      world = (case onExhausted cfg of None \<Rightarrow> w2 | Some h \<Rightarrow> h (attempt st) e w2),
                      rts = rts st,
                      trace = trace st @ [Called (attempt st) (Some e)] @
                        (case onExhausted cfg of None \<Rightarrow> []
                         | Some h \<Rightarrow> [ExhaustedHook (attempt st) e])\<rparr>\<rparr>"
proof -
  have "\<not> rejects cfg e"
    using assms(4) by (simp add: rejects_def split: option.splits)
  then show ?thesis
    using assms
    by (cases st)
       (simp add: step_defs recorded_def time_After_def Let_def split: option.splits)
qed

lemma attempt_body_sleep:
  assumes "fn (world st) = (Some e, w1)" and "errors_As_stopError e = None"
    and "attempt st < maxA" and "\<forall>c. condition cfg = Some c \<longrightarrow> c e"
    and "sint (maxDuration cfg) \<le> 0"
    and "Delay (backoff cfg) (attempt st) (rts st) = (delay, rt')"
    and "clock_Sleep cfg delay
           (case onRetry cfg of None \<Rightarrow> w1 | Some h \<Rightarrow> h (attempt st) e delay w1) = (r, w2)"
    and "st' = \<lparr>lastErr = (if allErrors cfg then lastErr st else Some e),
                errs = (if allErrors cfg then errs st @ [e] else errs st),
                attempt = attempt st, world = w2, rts = rt',
                trace = trace st @ [Called (attempt st) (Some e)] @
                  (case onRetry cfg of None \<Rightarrow> [] | Some h \<Rightarrow> [RetryHook (attempt st) e delay]) @
                  [Slept delay r]\<rparr>"
  shows "attempt_body fn cfg maxA deadline st =
     (if r = None then Continue st'
      else Return \<lparr>returned = (if allErrors cfg then joinErrors (errs st @ [e]) else Some e),
                   exit_via = Cancelled, final = st'\<rparr>)"
proof -
  have "\<not> rejects cfg e"
    using assms(4) by (simp add: rejects_def split: option.splits)
  then show ?thesis
    using assms
    by (cases st; cases r; cases "onRetry cfg")
       (simp_all add: step_defs recorded_def time_After_def Let_def split: if_splits)
qed

lemma attempt_body_clamped_exhausted:
  assumes "fn (world st) = (Some e, w1)" and "errors_As_stopError e = None"
    and "attempt st < maxA" and "\<forall>c. condition cfg = Some c \<longrightarrow> c e"
    and "0 < sint (maxDuration cfg)" and "clock_Now cfg w1 = (now1, w2)" and "\<not> deadline < now1"
    and "Delay (backoff cfg) (attempt st) (rts st) = (delay, rt')"
    and "clock_Now cfg w2 = (now2, w3)"
    and "clamped = (if sint (time_Sub deadline now2) < sint delay then time_Sub deadline now2
                    else delay)"
    and "sint clamped \<le> 0"
  shows "attempt_body fn cfg maxA deadline st =
     Return \<lparr>returned = (if allErrors cfg then joinErrors (errs st @ [e]) else Some e),
             exit_via = Exhausted,
             final = \<lparr>lastErr = (if allErrors cfg then lastErr st else Some e),
                      errs = (if allErrors cfg then errs st @ [e] else errs st),
                      attempt = attempt st,
                      world = (case onExhausted cfg of None \<Rightarrow> w3 | Some h \<Rightarrow> h (attempt st) e w3),
                      rts = rt',
                      trace = trace st @ [Called (attempt st) (Some e)] @
                        (case onExhausted cfg of None \<Rightarrow> []
                         | Some h \<Rightarrow> [ExhaustedHook (attempt st) e])\<rparr>\<rparr>"
proof -
  have "\<not> rejects cfg e"
    using assms(4) by (simp add: rejects_def split: option.splits)
  then show ?thesis
    using assms
    by (cases st)
       (simp add: step_defs recorded_def time_After_def Let_def split: option.splits)
qed

lemma attempt_body_clamped_sleep:
  assumes "fn (world st) = (Some e, w1)" and "errors_As_stopError e = None"
    and "attempt st < maxA" and "\<forall>c. condition cfg = Some c \<longrightarrow> c e"
    and "0 < sint (maxDuration cfg)" and "clock_Now cfg w1 = (now1, w2)" and "\<not> deadline < now1"
    and "Delay (backoff cfg) (attempt st) (rts st) = (delay, rt')"
    and "clock_Now cfg w2 = (now2, w3)"
    and "clamped = (if sint (time_Sub deadline now2) < sint delay then time_Sub deadline now2
                    else delay)"
    and "0 < sint clamped"
    and "clock_Sleep cfg clamped
           (case onRetry cfg of None \<Rightarrow> w3 | Some h \<Rightarrow> h (attempt st) e clamped w3) = (r, w4)"
    and "st' = \<lparr>lastErr = (if allErrors cfg then lastErr st else Some e),
                errs = (if allErrors cfg then errs st @ [e] else errs st),
                attempt = attempt st, world = w4, rts = rt',
                trace = trace st @ [Called (attempt st) (Some e)] @
                  (case onRetry cfg of None \<Rightarrow> [] | Some h \<Rightarrow> [RetryHook (attempt st) e clamped]) @
                  [Slept clamped r]\<rparr>"
  shows "attempt_body fn cfg maxA deadline st =
     (if r = None then Continue st'
      else Return \<lparr>returned = (if allErrors cfg then joinErrors (errs st @ [e]) else Some e),
                   exit_via = Cancelled, final = st'\<rparr>)"
proof -
  have "\<not> rejects cfg e"
    using assms(4) by (simp add: rejects_def split: option.splits)
  then show ?thesis
    using assms
    by (cases st; cases r; cases "onRetry cfg")
       (simp_all add: step_defs recorded_def time_After_def Let_def split: if_splits)
qed

lemma set_deadline_maxAttempts_update:
  "set_deadline (cfg\<lparr>maxAttempts := k\<rparr>) = set_deadline cfg"
  by (simp add: fun_eq_iff set_deadline_def maxAttempts_update_steps)

lemmas run_defs = execute_loop set_deadline_def attempt_budget_def initial_state_def
  step_defs recorded_def rejects_def Do_config_def counting_def newFakeClock_def
  noteExhausted_def noteRetry_def
  fakeClock_Sleep_def fakeClock_Now_def fakeClock_Advance_def defaultCondition_def
  DefaultMaxAttempts_def constant_draws_def errTest_def Millisecond_def time_Add_def
  time_Sub_def time_After_def MaxInt64_def joinErrors_def errors_Join_def Let_def

section \<open>The claims\<close>

subsection \<open>Delay strategies\<close>

text \<open>
  C1, as stated, fails: every strategy of the package would return a delay \<open>\<ge> 0\<close> at
  every attempt from \<open>-1\<close> to \<open>10000\<close>.  \<^verbatim>\<open>Linear\<close> multiplies the base by the attempt
  number, so a base of 100ms at attempt \<open>-1\<close> gives \<open>-100ms\<close>; \<^verbatim>\<open>Constant\<close> returns a
  negative duration unchanged.
\<close>

theorem Linear_negative_attempt_counterexample:
  "sint (fst (Delay (Linear (100 * Millisecond)) (- 1) (constant_draws 0))) = - 100000000 \<and>
   sint (fst (Delay (Constant (- 1)) 1 (constant_draws 0))) = - 1"
  by (simp add: Millisecond_def)

text \<open>
  C1, amended: a strategy that is within range at an attempt (parameters not negative,
  the product of \<^verbatim>\<open>Linear\<close> or \<^verbatim>\<open>Exponential\<close> inside \<^verbatim>\<open>int64\<close>, and any strategy
  under a jitter whose factor is not \<open>\<le> 0\<close>) returns a delay \<open>\<ge> 0\<close> at that attempt,
  whatever the random source returns.
\<close>

theorem Delay_nonnegative_within_range:
  "within_range b n \<Longrightarrow> 0 \<le> sint (fst (Delay b n rt))"
proof (induction b arbitrary: rt)
  case (BackoffFunc f)
  then show ?case by simp
next
  case (Constant d)
  then show ?case by simp
next
  case (Linear base)
  then have "sint (fst (Delay (Linear base) n rt)) = sint base * n"
    by (intro Linear_Delay_exact) (auto intro: order_trans [of _ 0])
  with Linear show ?case by simp
next
  case (Exponential base)
  show ?case
  proof (cases "n \<le> 0 \<or> 62 < n")
    case True
    with Exponential show ?thesis by (auto simp: sint_MaxInt64)
  next
    case False
    with Exponential have "sint (fst (Delay (Exponential base) n rt)) = sint base * 2 ^ nat (n - 1)"
      by (intro Exponential_Delay_exact) (auto intro: order_trans [of _ 0])
    with Exponential show ?thesis by simp
  qed
next
  case (WithCap mx b)
  then have "0 \<le> sint (fst (Delay b n rt))" and "0 \<le> sint mx" by simp_all
  then show ?case by (simp add: split_def Let_def)
next
  case (WithMin mn b)
  then have "0 \<le> sint mn \<or> 0 \<le> sint (fst (Delay b n rt))" by auto
  then show ?case by (auto simp: split_def Let_def)
next
  case (WithJitter factor b)
  show ?case
  proof (cases "f64_le factor (Finite 0)")
    case True
    with WithJitter have "0 \<le> sint (fst (Delay b n rt))" by simp
    with True show ?thesis by (simp add: split_def)
  next
    case False
    then show ?thesis by (simp add: split_def Let_def)
  qed
qed

theorem Delay_nonnegative_within_range_witness:
  "0 \<le> sint (fst (Delay (WithCap (10000 * Millisecond) (Exponential (100 * Millisecond))) 30
                  (constant_draws 0))) \<and>
   0 \<le> sint (fst (Delay (WithJitter (Finite (1 / 5))
                         (WithCap (10000 * Millisecond) (Exponential (100 * Millisecond)))) 10000
                  (constant_draws 0)))"
  using Delay_nonnegative_within_range
      [of "WithCap (10000 * Millisecond) (Exponential (100 * Millisecond))" 30 "constant_draws 0"]
    Delay_nonnegative_within_range
      [of "WithJitter (Finite (1 / 5))
             (WithCap (10000 * Millisecond) (Exponential (100 * Millisecond)))" 10000
          "constant_draws 0"]
  by (simp add: Millisecond_def)

text \<open>
  C2: \<^verbatim>\<open>Exponential(base).Delay(n)\<close> would be \<open>base * 2 ^ (n - 1)\<close> in exact arithmetic
  for \<open>1 \<le> n \<le> 62\<close>, never wrapping to a negative value.  The guard against
  overflow only covers the shift: the product with the base wraps.  For a base of
  100ms the delay is still exact at attempt 37, negative at attempt 38 and zero at
  attempt 62.
\<close>

theorem Exponential_wraps_negative:
  "sint (fst (Delay (Exponential (100 * Millisecond)) 37 rt)) = 100000000 * 2 ^ 36 \<and>
   sint (fst (Delay (Exponential (100 * Millisecond)) 38 rt)) = - 4702848726509551616 \<and>
   sint (fst (Delay (Exponential (100 * Millisecond)) 62 rt)) = 0"
  by (simp add: Millisecond_def)

text \<open>
  C8, as stated, fails: with \<open>0 < factor \<le> 1\<close> every draw of
  \<^verbatim>\<open>WithJitter(factor, Constant(d))\<close> would lie in \<open>[d * (1 - factor), d * (1 + factor)]\<close>.
  The conversion back to a duration drops the fraction: \<open>d = 3ns\<close>, factor \<open>1/2\<close>
  and a draw of \<open>0\<close> give \<open>1ns\<close>, below \<open>1.5\<close>.  Rounding can also pass the upper end:
  \<open>d = 10ns\<close>, the float64 nearest to \<open>0.3\<close> and the largest draw give \<open>13ns\<close>.
\<close>

theorem WithJitter_outside_interval_counterexample:
  "sint (fst (Delay (WithJitter (Finite (1 / 2)) (Constant 3)) 1 (constant_draws 0))) = 1 \<and>
   (1::rat) < 3 * (1 - 1 / 2) \<and>
   sint (fst (Delay (WithJitter (Finite (5404319552844595 / 18014398509481984)) (Constant 10)) 1
               (constant_draws (9007199254740991 / 9007199254740992)))) = 13 \<and>
   10 * (1 + 5404319552844595 / 18014398509481984) < (13::rat)"
proof (intro conjI)
  have a: "f64_round 3 = Finite 3" "f64_round 0 = Finite 0" "f64_round (- 1) = Finite (- 1)"
    using f64_round_of_int [of 3] f64_round_of_int [of 0] f64_round_of_int [of "- 1"]
    by simp_all
  have b: "f64_round (3 / 2) = Finite (3 / 2)" "f64_round (- (3 / 2)) = Finite (- (3 / 2))"
    using f64_round_dyadic [of 3 "- 1"] f64_round_dyadic [of "- 3" "- 1"] by simp_all
  have t: "truncate_rat (3 / 2) = 1"
    using truncate_rat_fraction [of 3 2] by simp
  show "sint (fst (Delay (WithJitter (Finite (1 / 2)) (Constant 3)) 1 (constant_draws 0))) = 1"
    by (simp add: a b t f64_of_duration_def rand_Float64_def constant_draws_def f64_sub_def
          Let_def)
  show "(1::rat) < 3 * (1 - 1 / 2)" by simp
  show "10 * (1 + 5404319552844595 / 18014398509481984) < (13::rat)" by simp
  have d: "f64_of_duration 10 = Finite 10"
    using f64_round_of_int [of 10] by (simp add: f64_of_duration_def)
  have jr: "f64_mul (Finite 10) (Finite (5404319552844595 / 18014398509481984)) = Finite 3"
    using f64_round_in_binade [of 1 "10 * (5404319552844595 / 18014398509481984)" 6755399441055744]
      round_half_even_fraction [of 4 27021597764222975]
    by simp
  have r2: "f64_mul (Finite (9007199254740991 / 9007199254740992)) (Finite 2) =
            Finite (9007199254740991 / 4503599627370496)"
    using f64_round_dyadic [of 9007199254740991 "- 52"] by simp
  have u: "f64_add (Finite (9007199254740991 / 4503599627370496)) (Finite (- 1)) =
           Finite (4503599627370495 / 4503599627370496)"
    using f64_round_dyadic [of 4503599627370495 "- 52"] by simp
  have j: "f64_mul (Finite (4503599627370495 / 4503599627370496)) (Finite 3) =
           Finite (3377699720527871 / 1125899906842624)"
    using f64_round_in_binade [of 1 "4503599627370495 / 4503599627370496 * 3" 6755399441055742]
      round_half_even_fraction [of 2 13510798882111485]
    by simp
  have s: "f64_add (Finite 10) (Finite (3377699720527871 / 1125899906842624)) = Finite 13"
    using f64_round_in_binade [of 3 "10 + 3377699720527871 / 1125899906842624" 7318349394477056]
      round_half_even_fraction [of 2 14636698788954111]
    by simp
  show "sint (fst (Delay (WithJitter (Finite (5404319552844595 / 18014398509481984)) (Constant 10)) 1
               (constant_draws (9007199254740991 / 9007199254740992)))) = 13"
    by (simp add: d jr r2 u j s rand_Float64_def constant_draws_def f64_sub_def
          truncate_rat_def Let_def del: f64_mul.simps f64_add.simps)
qed

text \<open>
  C8, amended: with a factor \<open>\<le> 0\<close> the jittered strategy returns exactly what the inner
  strategy returns and draws no random number; with \<open>0 < factor \<le> 1\<close> and a constant
  \<open>d\<close> from \<open>0\<close> to \<open>2 ^ 52\<close> nanoseconds, every draw is a whole number of
  nanoseconds between \<open>d * (1 - factor)\<close> rounded down and \<open>d * (1 + factor)\<close> rounded
  up, for every value in \<open>[0, 1)\<close> of the random source.
\<close>

theorem WithJitter_Delay_bounds:
  "(f64_le factor (Finite 0) \<longrightarrow> Delay (WithJitter factor b) n rt = Delay b n rt) \<and>
   (0 < f \<and> f \<le> 1 \<and> 0 \<le> sint d \<and> sint d \<le> 2 ^ 52 \<and> 0 \<le> draws rt 0 \<and> draws rt 0 < 1 \<longrightarrow>
      \<lfloor>of_int (sint d) * (1 - f)\<rfloor> \<le> sint (fst (Delay (WithJitter (Finite f) (Constant d)) n rt)) \<and>
      sint (fst (Delay (WithJitter (Finite f) (Constant d)) n rt)) \<le> \<lceil>of_int (sint d) * (1 + f)\<rceil>)"
  using WithJitter_no_factor WithJitter_Constant_bounds by blast

theorem WithJitter_Delay_bounds_witness:
  "Delay (WithJitter (Finite (- (1 / 2))) (Constant (100 * Millisecond))) 1 (constant_draws (1 / 3)) =
     (100 * Millisecond, constant_draws (1 / 3)) \<and>
   80000000 \<le> sint (fst (Delay (WithJitter (Finite (1 / 5)) (Constant (100 * Millisecond))) 1
                          (constant_draws (1 / 3)))) \<and>
   sint (fst (Delay (WithJitter (Finite (1 / 5)) (Constant (100 * Millisecond))) 1
               (constant_draws (1 / 3)))) \<le> 120000000"
  using WithJitter_Delay_bounds [of "Finite (- (1 / 2))" "Constant (100 * Millisecond)" 1
      "constant_draws (1 / 3)" "1 / 5" "100 * Millisecond"]
  by (simp add: Millisecond_def constant_draws_def)

subsection \<open>The retry loop\<close>

text \<open>
  C3: when the operation returns an error marked by \<^verbatim>\<open>Stop\<close>, the loop returns the
  error inside the marker on that attempt: the trace ends with that call (the
  operation is not called again and no hook runs), and the errors recorded before,
  whatever they are, are not returned.  When this happens on the first attempt the
  operation is called exactly once.
\<close>

theorem Stop_returns_at_once:
  "(fn (world st) = (Stop (Some c), w1) \<longrightarrow>
      loop fn cfg maxA deadline st =
        \<lparr>returned = Some c, exit_via = Stopped,
         final = st\<lparr>world := w1, trace := trace st @ [Called (attempt st) (Stop (Some c))]\<rparr>\<rparr>) \<and>
   (fn (world (snd (set_deadline cfg w rt))) = (Stop (Some c), w1) \<longrightarrow>
      returned (execute fn cfg w rt) = Some c \<and>
      exit_via (execute fn cfg w rt) = Stopped \<and>
      operation_calls (trace (final (execute fn cfg w rt))) = [1])"
proof (rule conjI; rule impI)
  assume "fn (world st) = (Stop (Some c), w1)"
  then show "loop fn cfg maxA deadline st =
        \<lparr>returned = Some c, exit_via = Stopped,
         final = st\<lparr>world := w1, trace := trace st @ [Called (attempt st) (Stop (Some c))]\<rparr>\<rparr>"
    by (simp add: loop_Stopped)
next
  assume a: "fn (world (snd (set_deadline cfg w rt))) = (Stop (Some c), w1)"
  have "execute fn cfg w rt =
        \<lparr>returned = Some c, exit_via = Stopped,
         final = (snd (set_deadline cfg w rt))\<lparr>world := w1,
           trace := trace (snd (set_deadline cfg w rt)) @
             [Called (attempt (snd (set_deadline cfg w rt))) (Some (StopErr c))]\<rparr>\<rparr>"
    unfolding execute_loop using a
    by (intro loop_Stopped [where fn = fn and st = "snd (set_deadline cfg w rt)"]) simp_all
  then show "returned (execute fn cfg w rt) = Some c \<and>
      exit_via (execute fn cfg w rt) = Stopped \<and>
      operation_calls (trace (final (execute fn cfg w rt))) = [1]"
    by (simp add: set_deadline_state)
qed

theorem Stop_returns_at_once_witness:
  "loop (counting (\<lambda>n. Stop (Some errTest))) (Do_config\<lparr>maxAttempts := 5, allErrors := True\<rparr>) 5 0
     ((initial_state newFakeClock (constant_draws 0))\<lparr>errs := [New ''earlier'']\<rparr>) =
     \<lparr>returned = Some errTest, exit_via = Stopped,
      final = (initial_state newFakeClock (constant_draws 0))
        \<lparr>errs := [New ''earlier''], world := newFakeClock\<lparr>attempts := 1\<rparr>,
         trace := [Called 1 (Some (StopErr errTest))]\<rparr>\<rparr> \<and>
   returned (execute (counting (\<lambda>n. Stop (Some errTest))) (Do_config\<lparr>maxAttempts := 5\<rparr>)
               newFakeClock (constant_draws 0)) = Some errTest \<and>
   exit_via (execute (counting (\<lambda>n. Stop (Some errTest))) (Do_config\<lparr>maxAttempts := 5\<rparr>)
               newFakeClock (constant_draws 0)) = Stopped \<and>
   operation_calls (trace (final (execute (counting (\<lambda>n. Stop (Some errTest)))
               (Do_config\<lparr>maxAttempts := 5\<rparr>) newFakeClock (constant_draws 0)))) = [1]"
  using Stop_returns_at_once [where fn = "counting (\<lambda>n. Stop (Some errTest))"
      and st = "(initial_state newFakeClock (constant_draws 0))\<lparr>errs := [New ''earlier'']\<rparr>"
      and c = errTest and ?w1.0 = "newFakeClock\<lparr>attempts := 1\<rparr>"
      and cfg = "Do_config\<lparr>maxAttempts := 5, allErrors := True\<rparr>" and maxA = 5 and deadline = 0]
    Stop_returns_at_once [where fn = "counting (\<lambda>n. Stop (Some errTest))"
      and c = errTest and ?w1.0 = "newFakeClock\<lparr>attempts := 1\<rparr>"
      and cfg = "Do_config\<lparr>maxAttempts := 5\<rparr>" and w = newFakeClock and rt = "constant_draws 0"]
  by (simp add: counting_def newFakeClock_def initial_state_def set_deadline_def Do_config_def)

text \<open>
  C4, as stated, fails on the code: the exhaustion hook would be called only when the
  loop has exhausted its attempt budget or its duration budget.  The check
  \<^verbatim>\<open>delay <= 0\<close> after the clamping also holds when the strategy itself returns no
  delay.  With a budget of five attempts and of one hour and a constant delay of \<open>0\<close>,
  the first failure calls the hook, with attempt 1, and ends the run: the operation
  was called once, the clock still shows the start of the hour, and nothing was slept.
\<close>

theorem zero_delay_exhausts_at_once:
  "execute (counting (\<lambda>n. Some errTest))
     (Do_config\<lparr>maxAttempts := 5, maxDuration := 3600000 * Millisecond, backoff := Constant 0,
                 onExhausted := Some noteExhausted\<rparr>)
     newFakeClock (constant_draws 0) =
   \<lparr>returned = Some errTest, exit_via = Exhausted,
    final = \<lparr>lastErr = Some errTest, errs = [], attempt = 1,
             world = newFakeClock\<lparr>attempts := 1, exhaustedCalls := [(1, errTest)]\<rparr>,
             rts = constant_draws 0,
             trace = [Called 1 (Some errTest), ExhaustedHook 1 errTest]\<rparr>\<rparr>"
  by (simp add: loop.simps run_defs)

text \<open>
  With a delay of one nanosecond the same run makes its five attempts and calls the
  hook once, with attempt 5; so does a run without a duration budget.
\<close>

lemma positive_delay_under_duration_budget:
  "execute (counting (\<lambda>n. Some errTest))
     (Do_config\<lparr>maxAttempts := 5, maxDuration := 3600000 * Millisecond, backoff := Constant 1,
                 onExhausted := Some noteExhausted\<rparr>)
     newFakeClock (constant_draws 0) =
   \<lparr>returned = Some errTest, exit_via = Exhausted,
    final = \<lparr>lastErr = Some errTest, errs = [], attempt = 5,
             world = newFakeClock\<lparr>clock_now := 4, clock_sleeps := [1, 1, 1, 1], attempts := 5,
                                   exhaustedCalls := [(5, errTest)]\<rparr>,
             rts = constant_draws 0,
             trace = [Called 1 (Some errTest), Slept 1 None, Called 2 (Some errTest), Slept 1 None,
                      Called 3 (Some errTest), Slept 1 None, Called 4 (Some errTest), Slept 1 None,
                      Called 5 (Some errTest), ExhaustedHook 5 errTest]\<rparr>\<rparr>"
  by (simp add: loop.simps run_defs)

lemma five_attempts_then_hook:
  "execute (counting (\<lambda>n. Some errTest))
     (Do_config\<lparr>maxAttempts := 5, onExhausted := Some noteExhausted\<rparr>)
     newFakeClock (constant_draws 0) =
   \<lparr>returned = Some errTest, exit_via = Exhausted,
    final = \<lparr>lastErr = Some errTest, errs = [], attempt = 5,
             world = newFakeClock\<lparr>clock_now := 1500000000,
                       clock_sleeps := [100000000, 200000000, 400000000, 800000000],
                       attempts := 5, exhaustedCalls := [(5, errTest)]\<rparr>,
             rts = constant_draws 0,
             trace = [Called 1 (Some errTest), Slept 100000000 None,
                      Called 2 (Some errTest), Slept 200000000 None,
                      Called 3 (Some errTest), Slept 400000000 None,
                      Called 4 (Some errTest), Slept 800000000 None,
                      Called 5 (Some errTest), ExhaustedHook 5 errTest]\<rparr>\<rparr>"
  by (simp add: loop.simps run_defs)

text \<open>
  C5: after a failed attempt the checks run in the order terminal marker, recording,
  attempt budget, retry condition, deadline, delay and clamping.  A terminal error
  returns before anything is recorded.  Once the attempt budget is reached the loop
  leaves through \<open>Exhausted\<close> with the error recorded and the hook applied to the
  world the operation left, whether or not the condition rejects the error.  Below
  the budget a rejected error leaves through \<open>ConditionRejected\<close> in the world the
  operation left: no hook runs and the clock is not read.  An accepted error with the
  deadline passed leaves through \<open>Exhausted\<close>, the hook applied to the world after
  the clock was read, before any delay is computed.  Otherwise the delay is computed:
  without a duration budget the retry hook runs and the clock sleeps for the delay;
  with one, the clock is read again and the delay clamped, a clamped delay \<open>\<le> 0\<close>
  leaves through \<open>Exhausted\<close> and a positive one is slept.  The iteration continues
  when the sleep returns no error and leaves through \<open>Cancelled\<close> when it returns one.
\<close>

theorem exit_checks_in_order:
  assumes "fn (world st) = (Some e, w1)"
    and "rec = st\<lparr>lastErr := (if allErrors cfg then lastErr st else Some e),
                   errs := (if allErrors cfg then errs st @ [e] else errs st),
                   world := w1, trace := trace st @ [Called (attempt st) (Some e)]\<rparr>"
    and "res = (if allErrors cfg then joinErrors (errs st @ [e]) else Some e)"
  shows "(errors_As_stopError e = Some (StopErr c) \<longrightarrow>
            loop fn cfg maxA deadline st =
              \<lparr>returned = Some c, exit_via = Stopped,
               final = st\<lparr>world := w1, trace := trace st @ [Called (attempt st) (Some e)]\<rparr>\<rparr>) \<and>
         (errors_As_stopError e = None \<and> maxA \<le> attempt st \<longrightarrow>
            loop fn cfg maxA deadline st =
              \<lparr>returned = res, exit_via = Exhausted,
               final = (case onExhausted cfg of None \<Rightarrow> rec
                        | Some h \<Rightarrow> rec\<lparr>world := h (attempt st) e w1,
                                        trace := trace rec @ [ExhaustedHook (attempt st) e]\<rparr>)\<rparr>) \<and>
         (errors_As_stopError e = None \<and> attempt st < maxA \<and>
          condition cfg = Some p \<and> \<not> p e \<longrightarrow>
            loop fn cfg maxA deadline st =
              \<lparr>returned = res, exit_via = ConditionRejected, final = rec\<rparr>) \<and>
         (errors_As_stopError e = None \<and> attempt st < maxA \<and>
          (\<forall>p. condition cfg = Some p \<longrightarrow> p e) \<and>
          0 < sint (maxDuration cfg) \<and> clock_Now cfg w1 = (now1, w2) \<and> deadline < now1 \<longrightarrow>
            loop fn cfg maxA deadline st =
              \<lparr>returned = res, exit_via = Exhausted,
               final = (case onExhausted cfg of None \<Rightarrow> rec\<lparr>world := w2\<rparr>
                        | Some h \<Rightarrow> rec\<lparr>world := h (attempt st) e w2,
                                        trace := trace rec @ [ExhaustedHook (attempt st) e]\<rparr>)\<rparr>) \<and>
         (errors_As_stopError e = None \<and> attempt st < maxA \<and>
          (\<forall>p. condition cfg = Some p \<longrightarrow> p e) \<and>
          sint (maxDuration cfg) \<le> 0 \<and>
          Delay (backoff cfg) (attempt st) (rts st) = (delay, rt') \<and>
          clock_Sleep cfg delay
            (case onRetry cfg of None \<Rightarrow> w1 | Some h \<Rightarrow> h (attempt st) e delay w1) = (r, w4) \<longrightarrow>
            attempt_body fn cfg maxA deadline st =
              (if r = None
               then Continue (rec\<lparr>world := w4, rts := rt',
                      trace := trace rec @
                        (case onRetry cfg of None \<Rightarrow> []
                         | Some h \<Rightarrow> [RetryHook (attempt st) e delay]) @ [Slept delay r]\<rparr>)
               else Return \<lparr>returned = res, exit_via = Cancelled,
                      final = rec\<lparr>world := w4, rts := rt',
                        trace := trace rec @
                          (case onRetry cfg of None \<Rightarrow> []
                           | Some h \<Rightarrow> [RetryHook (attempt st) e delay]) @ [Slept delay r]\<rparr>\<rparr>)) \<and>
         (errors_As_stopError e = None \<and> attempt st < maxA \<and>
          (\<forall>p. condition cfg = Some p \<longrightarrow> p e) \<and>
          0 < sint (maxDuration cfg) \<and> clock_Now cfg w1 = (now1, w2) \<and> \<not> deadline < now1 \<and>
          Delay (backoff cfg) (attempt st) (rts st) = (delay, rt') \<and>
          clock_Now cfg w2 = (now2, w3) \<and>
          clamped = (if sint (time_Sub deadline now2) < sint delay then time_Sub deadline now2
                     else delay) \<and>
          sint clamped \<le> 0 \<longrightarrow>
            loop fn cfg maxA deadline st =
              \<lparr>returned = res, exit_via = Exhausted,
               final = (case onExhausted cfg of None \<Rightarrow> rec\<lparr>world := w3, rts := rt'\<rparr>
                        | Some h \<Rightarrow> rec\<lparr>world := h (attempt st) e w3, rts := rt',
                                        trace := trace rec @ [ExhaustedHook (attempt st) e]\<rparr>)\<rparr>) \<and>
         (errors_As_stopError e = None \<and> attempt st < maxA \<and>
          (\<forall>p. condition cfg = Some p \<longrightarrow> p e) \<and>
          0 < sint (maxDuration cfg) \<and> clock_Now cfg w1 = (now1, w2) \<and> \<not> deadline < now1 \<and>
          Delay (backoff cfg) (attempt st) (rts st) = (delay, rt') \<and>
          clock_Now cfg w2 = (now2, w3) \<and>
          clamped = (if sint (time_Sub deadline now2) < sint delay then time_Sub deadline now2
                     else delay) \<and>
          0 < sint clamped \<and>
          clock_Sleep cfg clamped
            (case onRetry cfg of None \<Rightarrow> w3 | Some h \<Rightarrow> h (attempt st) e clamped w3) = (r, w4) \<longrightarrow>
            attempt_body fn cfg maxA deadline st =
              (if r = None
               then Continue (rec\<lparr>world := w4, rts := rt',
                      trace := trace rec @
                        (case onRetry cfg of None \<Rightarrow> []
                         | Some h \<Rightarrow> [RetryHook (attempt st) e clamped]) @ [Slept clamped r]\<rparr>)
               else Return \<lparr>returned = res, exit_via = Cancelled,
                      final = rec\<lparr>world := w4, rts := rt',
                        trace := trace rec @
                          (case onRetry cfg of None \<Rightarrow> []
                           | Some h \<Rightarrow> [RetryHook (attempt st) e clamped]) @ [Slept clamped r]\<rparr>\<rparr>))"
proof (intro conjI impI; (elim conjE)?)
  assume "errors_As_stopError e = Some (StopErr c)"
  with assms(1) show "loop fn cfg maxA deadline st =
      \<lparr>returned = Some c, exit_via = Stopped,
       final = st\<lparr>world := w1, trace := trace st @ [Called (attempt st) (Some e)]\<rparr>\<rparr>"
    by (rule loop_Stopped)
next
  assume a: "errors_As_stopError e = None" "maxA \<le> attempt st"
  show "loop fn cfg maxA deadline st =
      \<lparr>returned = res, exit_via = Exhausted,
       final = (case onExhausted cfg of None \<Rightarrow> rec
                | Some h \<Rightarrow> rec\<lparr>world := h (attempt st) e w1,
                                trace := trace rec @ [ExhaustedHook (attempt st) e]\<rparr>)\<rparr>"
    unfolding assms(2,3)
    by (rule loop_Return, insert attempt_body_exhausted_attempts
          [where fn = fn and st = st, OF assms(1) a], cases st)
       (simp split: option.splits)
next
  fix p assume a: "errors_As_stopError e = None" "attempt st < maxA"
    "condition cfg = Some p" "\<not> p e"
  show "loop fn cfg maxA deadline st =
      \<lparr>returned = res, exit_via = ConditionRejected, final = rec\<rparr>"
    unfolding assms(2,3)
    by (rule loop_Return, insert attempt_body_rejected
          [where fn = fn and st = st, OF assms(1) a], cases st) simp
next
  assume a: "errors_As_stopError e = None" "attempt st < maxA"
    "\<forall>p. condition cfg = Some p \<longrightarrow> p e" "0 < sint (maxDuration cfg)"
    "clock_Now cfg w1 = (now1, w2)" "deadline < now1"
  show "loop fn cfg maxA deadline st =
      \<lparr>returned = res, exit_via = Exhausted,
       final = (case onExhausted cfg of None \<Rightarrow> rec\<lparr>world := w2\<rparr>
                | Some h \<Rightarrow> rec\<lparr>world := h (attempt st) e w2,
                                trace := trace rec @ [ExhaustedHook (attempt st) e]\<rparr>)\<rparr>"
    unfolding assms(2,3)
    by (rule loop_Return, insert attempt_body_past_deadline
          [where fn = fn and st = st, OF assms(1) a], cases st)
       (simp split: option.splits)
next
  assume a: "errors_As_stopError e = None" "attempt st < maxA"
    "\<forall>p. condition cfg = Some p \<longrightarrow> p e" "sint (maxDuration cfg) \<le> 0"
    "Delay (backoff cfg) (attempt st) (rts st) = (delay, rt')"
    "clock_Sleep cfg delay
       (case onRetry cfg of None \<Rightarrow> w1 | Some h \<Rightarrow> h (attempt st) e delay w1) = (r, w4)"
  show "attempt_body fn cfg maxA deadline st =
      (if r = None
       then Continue (rec\<lparr>world := w4, rts := rt',
              trace := trace rec @
                (case onRetry cfg of None \<Rightarrow> []
                 | Some h \<Rightarrow> [RetryHook (attempt st) e delay]) @ [Slept delay r]\<rparr>)
       else Return \<lparr>returned = res, exit_via = Cancelled,
              final = rec\<lparr>world := w4, rts := rt',
                trace := trace rec @
                  (case onRetry cfg of None \<Rightarrow> []
                   | Some h \<Rightarrow> [RetryHook (attempt st) e delay]) @ [Slept delay r]\<rparr>\<rparr>)"
    unfolding assms(2,3)
    by (insert attempt_body_sleep
          [where fn = fn and st = st, OF assms(1) a refl], cases st) simp
next
  assume a: "errors_As_stopError e = None" "attempt st < maxA"
    "\<forall>p. condition cfg = Some p \<longrightarrow> p e" "0 < sint (maxDuration cfg)"
    "clock_Now cfg w1 = (now1, w2)" "\<not> deadline < now1"
    "Delay (backoff cfg) (attempt st) (rts st) = (delay, rt')"
    "clock_Now cfg w2 = (now2, w3)"
    "clamped = (if sint (time_Sub deadline now2) < sint delay then time_Sub deadline now2
                else delay)"
    "sint clamped \<le> 0"
  show "loop fn cfg maxA deadline st =
      \<lparr>returned = res, exit_via = Exhausted,
       final = (case onExhausted cfg of None \<Rightarrow> rec\<lparr>world := w3, rts := rt'\<rparr>
                | Some h \<Rightarrow> rec\<lparr>world := h (attempt st) e w3, rts := rt',
                                trace := trace rec @ [ExhaustedHook (attempt st) e]\<rparr>)\<rparr>"
    unfolding assms(2,3)
    by (rule loop_Return, insert attempt_body_clamped_exhausted
          [where fn = fn and st = st, OF assms(1) a], cases st)
       (simp split: option.splits)
next
  assume a: "errors_As_stopError e = None" "attempt st < maxA"
    "\<forall>p. condition cfg = Some p \<longrightarrow> p e" "0 < sint (maxDuration cfg)"
    "clock_Now cfg w1 = (now1, w2)" "\<not> deadline < now1"
    "Delay (backoff cfg) (attempt st) (rts st) = (delay, rt')"
    "clock_Now cfg w2 = (now2, w3)"
    "clamped = (if sint (time_Sub deadline now2) < sint delay then time_Sub deadline now2
                else delay)"
    "0 < sint clamped"
    "clock_Sleep cfg clamped
       (case onRetry cfg of None \<Rightarrow> w3 | Some h \<Rightarrow> h (attempt st) e clamped w3) = (r, w4)"
  show "attempt_body fn cfg maxA deadline st =
      (if r = None
       then Continue (rec\<lparr>world := w4, rts := rt',
              trace := trace rec @
                (case onRetry cfg of None \<Rightarrow> []
                 | Some h \<Rightarrow> [RetryHook (attempt st) e clamped]) @ [Slept clamped r]\<rparr>)
       else Return \<lparr>returned = res, exit_via = Cancelled,
              final = rec\<lparr>world := w4, rts := rt',
                trace := trace rec @
                  (case onRetry cfg of None \<Rightarrow> []
                   | Some h \<Rightarrow> [RetryHook (attempt st) e clamped]) @ [Slept clamped r]\<rparr>\<rparr>)"
    unfolding assms(2,3)
    by (insert attempt_body_clamped_sleep
          [where fn = fn and st = st, OF assms(1) a refl], cases st) simp
qed

theorem exit_checks_in_order_witness:
  "loop (counting (\<lambda>n. Some errTest))
     (Do_config\<lparr>maxAttempts := 1, condition := Some (\<lambda>e. False),
                 onExhausted := Some noteExhausted\<rparr>)
     1 0 (initial_state newFakeClock (constant_draws 0)) =
     \<lparr>returned = Some errTest, exit_via = Exhausted,
      final = \<lparr>lastErr = Some errTest, errs = [], attempt = 1,
               world = newFakeClock\<lparr>attempts := 1, exhaustedCalls := [(1, errTest)]\<rparr>,
               rts = constant_draws 0,
               trace = [Called 1 (Some errTest), ExhaustedHook 1 errTest]\<rparr>\<rparr> \<and>
   loop (counting (\<lambda>n. Some errTest))
     (Do_config\<lparr>maxAttempts := 2, condition := Some (\<lambda>e. False),
                 onExhausted := Some noteExhausted\<rparr>)
     2 0 (initial_state newFakeClock (constant_draws 0)) =
     \<lparr>returned = Some errTest, exit_via = ConditionRejected,
      final = \<lparr>lastErr = Some errTest, errs = [], attempt = 1,
               world = newFakeClock\<lparr>attempts := 1\<rparr>, rts = constant_draws 0,
               trace = [Called 1 (Some errTest)]\<rparr>\<rparr> \<and>
   loop (counting (\<lambda>n. Stop (Some errTest)))
     (Do_config\<lparr>maxAttempts := 1, condition := Some (\<lambda>e. False),
                 onExhausted := Some noteExhausted\<rparr>)
     1 0 (initial_state newFakeClock (constant_draws 0)) =
     \<lparr>returned = Some errTest, exit_via = Stopped,
      final = \<lparr>lastErr = None, errs = [], attempt = 1,
               world = newFakeClock\<lparr>attempts := 1\<rparr>, rts = constant_draws 0,
               trace = [Called 1 (Some (StopErr errTest))]\<rparr>\<rparr> \<and>
   loop (\<lambda>w. (Some errTest, fakeClock_Advance (150 * Millisecond) w))
     (Do_config\<lparr>maxAttempts := 10, maxDuration := 100 * Millisecond,
                 onExhausted := Some noteExhausted\<rparr>)
     10 100000000 (initial_state newFakeClock (constant_draws 0)) =
     \<lparr>returned = Some errTest, exit_via = Exhausted,
      final = \<lparr>lastErr = Some errTest, errs = [], attempt = 1,
               world = newFakeClock\<lparr>clock_now := 150000000, exhaustedCalls := [(1, errTest)]\<rparr>,
               rts = constant_draws 0,
               trace = [Called 1 (Some errTest), ExhaustedHook 1 errTest]\<rparr>\<rparr> \<and>
   attempt_body (counting (\<lambda>n. Some errTest)) (Do_config\<lparr>onRetry := Some noteRetry\<rparr>)
     3 0 (initial_state newFakeClock (constant_draws 0)) =
     Continue \<lparr>lastErr = Some errTest, errs = [], attempt = 1,
               world = newFakeClock\<lparr>clock_now := 100000000, clock_sleeps := [100000000],
                         attempts := 1, retryCalls := [(1, errTest, 100000000)]\<rparr>,
               rts = constant_draws 0,
               trace = [Called 1 (Some errTest), RetryHook 1 errTest 100000000,
                        Slept 100000000 None]\<rparr> \<and>
   loop (\<lambda>w. (Some errTest, fakeClock_Advance (100 * Millisecond) w))
     (Do_config\<lparr>maxAttempts := 10, maxDuration := 100 * Millisecond,
                 backoff := Constant (10 * Millisecond), onExhausted := Some noteExhausted\<rparr>)
     10 100000000 (initial_state newFakeClock (constant_draws 0)) =
     \<lparr>returned = Some errTest, exit_via = Exhausted,
      final = \<lparr>lastErr = Some errTest, errs = [], attempt = 1,
               world = newFakeClock\<lparr>clock_now := 100000000, exhaustedCalls := [(1, errTest)]\<rparr>,
               rts = constant_draws 0,
               trace = [Called 1 (Some errTest), ExhaustedHook 1 errTest]\<rparr>\<rparr> \<and>
   attempt_body (\<lambda>w. (Some errTest, fakeClock_Advance (80 * Millisecond) w))
     (Do_config\<lparr>maxAttempts := 10, maxDuration := 100 * Millisecond,
                 backoff := Constant (50 * Millisecond), onRetry := Some noteRetry\<rparr>)
     10 100000000 (initial_state newFakeClock (constant_draws 0)) =
     Continue \<lparr>lastErr = Some errTest, errs = [], attempt = 1,
               world = newFakeClock\<lparr>clock_now := 100000000, clock_sleeps := [20000000],
                         retryCalls := [(1, errTest, 20000000)]\<rparr>,
               rts = constant_draws 0,
               trace = [Called 1 (Some errTest), RetryHook 1 errTest 20000000,
                        Slept 20000000 None]\<rparr>"
proof -
  let ?st = "initial_state newFakeClock (constant_draws 0)"
  let ?rej = "\<lambda>k. Do_config\<lparr>maxAttempts := k, condition := Some (\<lambda>e. False),
                               onExhausted := Some noteExhausted\<rparr>"
  let ?adv = "\<lambda>d w. (Some errTest, fakeClock_Advance d w)"
  let ?at = "\<lambda>t. newFakeClock\<lparr>clock_now := t\<rparr>"
  have f: "counting (\<lambda>n. Some errTest) (world ?st) = (Some errTest, newFakeClock\<lparr>attempts := 1\<rparr>)"
    and s: "counting (\<lambda>n. Stop (Some errTest)) (world ?st) =
              (Some (StopErr errTest), newFakeClock\<lparr>attempts := 1\<rparr>)"
    and t: "?adv (150 * Millisecond) (world ?st) = (Some errTest, ?at 150000000)"
      "?adv (100 * Millisecond) (world ?st) = (Some errTest, ?at 100000000)"
      "?adv (80 * Millisecond) (world ?st) = (Some errTest, ?at 80000000)"
    by (simp_all add: counting_def newFakeClock_def initial_state_def fakeClock_Advance_def
          time_Add_def Millisecond_def)
  note ev = Do_config_def defaultCondition_def fakeClock_Now_def fakeClock_Sleep_def
    noteExhausted_def noteRetry_def newFakeClock_def initial_state_def errTest_def
    Millisecond_def time_Add_def time_Sub_def MaxInt64_def DefaultMaxAttempts_def
    constant_draws_def
  note A = exit_checks_in_order [where fn = "counting (\<lambda>n. Some errTest)" and st = ?st
      and cfg = "?rej 1" and maxA = 1 and deadline = 0, OF f refl refl,
      THEN conjunct2, THEN conjunct1]
  note B = exit_checks_in_order [where fn = "counting (\<lambda>n. Some errTest)" and st = ?st
      and cfg = "?rej 2" and maxA = 2 and deadline = 0 and p = "\<lambda>e. False", OF f refl refl,
      THEN conjunct2, THEN conjunct2, THEN conjunct1]
  note C = exit_checks_in_order [where fn = "counting (\<lambda>n. Stop (Some errTest))" and st = ?st
      and cfg = "?rej 1" and maxA = 1 and deadline = 0 and c = errTest, OF s refl refl,
      THEN conjunct1]
  note D = exit_checks_in_order [where fn = "?adv (150 * Millisecond)" and st = ?st
      and cfg = "Do_config\<lparr>maxAttempts := 10, maxDuration := 100 * Millisecond,
                              onExhausted := Some noteExhausted\<rparr>"
      and maxA = 10 and deadline = 100000000 and ?now1.0 = 150000000
      and ?w2.0 = "?at 150000000", OF t(1) refl refl,
      THEN conjunct2, THEN conjunct2, THEN conjunct2, THEN conjunct1]
  note E = exit_checks_in_order [where fn = "counting (\<lambda>n. Some errTest)" and st = ?st
      and cfg = "Do_config\<lparr>onRetry := Some noteRetry\<rparr>" and maxA = 3 and deadline = 0
      and delay = 100000000 and rt' = "constant_draws 0" and r = None
      and ?w4.0 = "newFakeClock\<lparr>clock_now := 100000000, clock_sleeps := [100000000],
                         attempts := 1, retryCalls := [(1, errTest, 100000000)]\<rparr>",
      OF f refl refl,
      THEN conjunct2, THEN conjunct2, THEN conjunct2, THEN conjunct2, THEN conjunct1]
  note F = exit_checks_in_order [where fn = "?adv (100 * Millisecond)" and st = ?st
      and cfg = "Do_config\<lparr>maxAttempts := 10, maxDuration := 100 * Millisecond,
                   backoff := Constant (10 * Millisecond), onExhausted := Some noteExhausted\<rparr>"
      and maxA = 10 and deadline = 100000000 and ?now1.0 = 100000000
      and ?w2.0 = "?at 100000000" and delay = "10 * Millisecond" and rt' = "constant_draws 0"
      and ?now2.0 = 100000000 and ?w3.0 = "?at 100000000" and clamped = 0,
      OF t(2) refl refl,
      THEN conjunct2, THEN conjunct2, THEN conjunct2, THEN conjunct2, THEN conjunct2,
      THEN conjunct1]
  note G = exit_checks_in_order [where fn = "?adv (80 * Millisecond)" and st = ?st
      and cfg = "Do_config\<lparr>maxAttempts := 10, maxDuration := 100 * Millisecond,
                   backoff := Constant (50 * Millisecond), onRetry := Some noteRetry\<rparr>"
      and maxA = 10 and deadline = 100000000 and ?now1.0 = 80000000
      and ?w2.0 = "?at 80000000" and delay = "50 * Millisecond" and rt' = "constant_draws 0"
      and ?now2.0 = 80000000 and ?w3.0 = "?at 80000000" and clamped = 20000000 and r = None
      and ?w4.0 = "newFakeClock\<lparr>clock_now := 100000000, clock_sleeps := [20000000],
                         retryCalls := [(1, errTest, 20000000)]\<rparr>",
      OF t(3) refl refl,
      THEN conjunct2, THEN conjunct2, THEN conjunct2, THEN conjunct2, THEN conjunct2,
      THEN conjunct2]
  from A have a: "loop (counting (\<lambda>n. Some errTest)) (?rej 1) 1 0 ?st =
     \<lparr>returned = Some errTest, exit_via = Exhausted,
      final = \<lparr>lastErr = Some errTest, errs = [], attempt = 1,
               world = newFakeClock\<lparr>attempts := 1, exhaustedCalls := [(1, errTest)]\<rparr>,
               rts = constant_draws 0,
               trace = [Called 1 (Some errTest), ExhaustedHook 1 errTest]\<rparr>\<rparr>"
    by (simp add: ev)
  from B have b: "loop (counting (\<lambda>n. Some errTest)) (?rej 2) 2 0 ?st =
     \<lparr>returned = Some errTest, exit_via = ConditionRejected,
      final = \<lparr>lastErr = Some errTest, errs = [], attempt = 1,
               world = newFakeClock\<lparr>attempts := 1\<rparr>, rts = constant_draws 0,
               trace = [Called 1 (Some errTest)]\<rparr>\<rparr>"
    by (simp add: ev)
  from C have c: "loop (counting (\<lambda>n. Stop (Some errTest))) (?rej 1) 1 0 ?st =
     \<lparr>returned = Some errTest, exit_via = Stopped,
      final = \<lparr>lastErr = None, errs = [], attempt = 1,
               world = newFakeClock\<lparr>attempts := 1\<rparr>, rts = constant_draws 0,
               trace = [Called 1 (Some (StopErr errTest))]\<rparr>\<rparr>"
    by (simp add: ev)
  from D have d: "loop (?adv (150 * Millisecond))
     (Do_config\<lparr>maxAttempts := 10, maxDuration := 100 * Millisecond,
                 onExhausted := Some noteExhausted\<rparr>) 10 100000000 ?st =
     \<lparr>returned = Some errTest, exit_via = Exhausted,
      final = \<lparr>lastErr = Some errTest, errs = [], attempt = 1,
               world = newFakeClock\<lparr>clock_now := 150000000, exhaustedCalls := [(1, errTest)]\<rparr>,
               rts = constant_draws 0,
               trace = [Called 1 (Some errTest), ExhaustedHook 1 errTest]\<rparr>\<rparr>"
    by (simp add: ev)
  from E have e: "attempt_body (counting (\<lambda>n. Some errTest))
     (Do_config\<lparr>onRetry := Some noteRetry\<rparr>) 3 0 ?st =
     Continue \<lparr>lastErr = Some errTest, errs = [], attempt = 1,
               world = newFakeClock\<lparr>clock_now := 100000000, clock_sleeps := [100000000],
                         attempts := 1, retryCalls := [(1, errTest, 100000000)]\<rparr>,
               rts = constant_draws 0,
               trace = [Called 1 (Some errTest), RetryHook 1 errTest 100000000,
                        Slept 100000000 None]\<rparr>"
    by (simp add: ev)
  from F have f': "loop (?adv (100 * Millisecond))
     (Do_config\<lparr>maxAttempts := 10, maxDuration := 100 * Millisecond,
                 backoff := Constant (10 * Millisecond), onExhausted := Some noteExhausted\<rparr>)
     10 100000000 ?st =
     \<lparr>returned = Some errTest, exit_via = Exhausted,
      final = \<lparr>lastErr = Some errTest, errs = [], attempt = 1,
               world = newFakeClock\<lparr>clock_now := 100000000, exhaustedCalls := [(1, errTest)]\<rparr>,
               rts = constant_draws 0,
               trace = [Called 1 (Some errTest), ExhaustedHook 1 errTest]\<rparr>\<rparr>"
    by (simp add: ev)
  from G have g: "attempt_body (?adv (80 * Millisecond))
     (Do_config\<lparr>maxAttempts := 10, maxDuration := 100 * Millisecond,
                 backoff := Constant (50 * Millisecond), onRetry := Some noteRetry\<rparr>)
     10 100000000 ?st =
     Continue \<lparr>lastErr = Some errTest, errs = [], attempt = 1,
               world = newFakeClock\<lparr>clock_now := 100000000, clock_sleeps := [20000000],
                         retryCalls := [(1, errTest, 20000000)]\<rparr>,
               rts = constant_draws 0,
               trace = [Called 1 (Some errTest), RetryHook 1 errTest 20000000,
                        Slept 20000000 None]\<rparr>"
    by (simp add: ev)
  from a b c d e f' g show ?thesis by blast
qed

text \<open>
  C6: with a duration budget, an accepted error below the attempt budget and the
  deadline not passed, the delay of the strategy is clamped to the time left until
  the deadline, read from the clock after the delay was computed.  A clamped delay
  \<open>\<le> 0\<close> leaves through \<open>Exhausted\<close> with the recorded errors: the exhaustion hook
  is applied to the world the clock left and the clock does not sleep.  Otherwise the
  retry hook is applied and the clock sleeps for the clamped delay, in that world; the
  loop goes on to the next attempt from the world the sleep returns when the sleep
  returns no error, and leaves through \<open>Cancelled\<close> with the recorded errors when it
  returns one.
\<close>

theorem delay_clamped_to_deadline:
  assumes "fn (world st) = (Some e, w1)" and "errors_As_stopError e = None"
    and "attempt st < maxA" and "\<forall>p. condition cfg = Some p \<longrightarrow> p e"
    and "0 < sint (maxDuration cfg)"
    and "clock_Now cfg w1 = (now1, w2)" and "\<not> deadline < now1"
    and "Delay (backoff cfg) (attempt st) (rts st) = (delay, rt')"
    and "clock_Now cfg w2 = (now2, w3)"
    and "clamped = (if sint (time_Sub deadline now2) < sint delay then time_Sub deadline now2
                    else delay)"
    and "rec = st\<lparr>lastErr := (if allErrors cfg then lastErr st else Some e),
                   errs := (if allErrors cfg then errs st @ [e] else errs st),
                   rts := rt', trace := trace st @ [Called (attempt st) (Some e)]\<rparr>"
    and "res = (if allErrors cfg then joinErrors (errs st @ [e]) else Some e)"
  shows "(sint clamped \<le> 0 \<longrightarrow>
            loop fn cfg maxA deadline st =
              \<lparr>returned = res, exit_via = Exhausted,
               final = (case onExhausted cfg of None \<Rightarrow> rec\<lparr>world := w3\<rparr>
                        | Some h \<Rightarrow> rec\<lparr>world := h (attempt st) e w3,
                                        trace := trace rec @ [ExhaustedHook (attempt st) e]\<rparr>)\<rparr>) \<and>
         (0 < sint clamped \<and>
          clock_Sleep cfg clamped
            (case onRetry cfg of None \<Rightarrow> w3 | Some h \<Rightarrow> h (attempt st) e clamped w3) = (r, w4) \<and>
          st' = rec\<lparr>world := w4,
                  trace := trace rec @
                    (case onRetry cfg of None \<Rightarrow> []
                     | Some h \<Rightarrow> [RetryHook (attempt st) e clamped]) @ [Slept clamped r]\<rparr> \<longrightarrow>
            attempt_body fn cfg maxA deadline st =
              (if r = None then Continue st'
               else Return \<lparr>returned = res, exit_via = Cancelled, final = st'\<rparr>) \<and>
            (r = None \<longrightarrow>
               loop fn cfg maxA deadline st =
                 loop fn cfg maxA deadline (st'\<lparr>attempt := attempt st + 1\<rparr>)) \<and>
            (r \<noteq> None \<longrightarrow>
               loop fn cfg maxA deadline st =
                 \<lparr>returned = res, exit_via = Cancelled, final = st'\<rparr>))"
proof (intro conjI impI; (elim conjE)?)
  assume "sint clamped \<le> 0"
  note B = attempt_body_clamped_exhausted [where fn = fn and st = st, OF assms(1-10) this]
  show "loop fn cfg maxA deadline st =
      \<lparr>returned = res, exit_via = Exhausted,
       final = (case onExhausted cfg of None \<Rightarrow> rec\<lparr>world := w3\<rparr>
                | Some h \<Rightarrow> rec\<lparr>world := h (attempt st) e w3,
                                trace := trace rec @ [ExhaustedHook (attempt st) e]\<rparr>)\<rparr>"
    unfolding assms(11,12)
    by (rule loop_Return, insert B, cases st) (simp split: option.splits)
next
  assume a: "0 < sint clamped"
    "clock_Sleep cfg clamped
       (case onRetry cfg of None \<Rightarrow> w3 | Some h \<Rightarrow> h (attempt st) e clamped w3) = (r, w4)"
    and s: "st' = rec\<lparr>world := w4,
                  trace := trace rec @
                    (case onRetry cfg of None \<Rightarrow> []
                     | Some h \<Rightarrow> [RetryHook (attempt st) e clamped]) @ [Slept clamped r]\<rparr>"
  note B = attempt_body_clamped_sleep [where fn = fn and st = st, OF assms(1-10) a refl]
  show body: "attempt_body fn cfg maxA deadline st =
      (if r = None then Continue st'
       else Return \<lparr>returned = res, exit_via = Cancelled, final = st'\<rparr>)"
    unfolding s assms(11,12)
    by (insert B, cases st) simp
  show "loop fn cfg maxA deadline st =
          loop fn cfg maxA deadline (st'\<lparr>attempt := attempt st + 1\<rparr>)" if "r = None"
  proof -
    have "attempt st' = attempt st"
      by (simp add: s assms(11))
    with loop_Continue [where st = st and st' = st' and fn = fn] body that
    show ?thesis by simp
  qed
  show "loop fn cfg maxA deadline st = \<lparr>returned = res, exit_via = Cancelled, final = st'\<rparr>"
    if "r \<noteq> None"
    using body that by (intro loop_Return) simp
qed

theorem delay_clamped_to_deadline_witness:
  "attempt_body (\<lambda>w. (Some errTest, fakeClock_Advance (70 * Millisecond) w))
     (Do_config\<lparr>maxAttempts := 10, maxDuration := 100 * Millisecond,
                 backoff := Constant (50 * Millisecond), onRetry := Some noteRetry,
                 onExhausted := Some noteExhausted\<rparr>)
     10 100000000 (initial_state newFakeClock (constant_draws 0)) =
     Continue \<lparr>lastErr = Some errTest, errs = [], attempt = 1,
               world = newFakeClock\<lparr>clock_now := 100000000, clock_sleeps := [30000000],
                         retryCalls := [(1, errTest, 30000000)]\<rparr>,
               rts = constant_draws 0,
               trace = [Called 1 (Some errTest), RetryHook 1 errTest 30000000,
                        Slept 30000000 None]\<rparr> \<and>
   loop (\<lambda>w. (Some errTest, fakeClock_Advance (70 * Millisecond) w))
     (Do_config\<lparr>maxAttempts := 10, maxDuration := 100 * Millisecond,
                 backoff := Constant (50 * Millisecond), onRetry := Some noteRetry,
                 onExhausted := Some noteExhausted\<rparr>)
     10 100000000 (initial_state newFakeClock (constant_draws 0)) =
   loop (\<lambda>w. (Some errTest, fakeClock_Advance (70 * Millisecond) w))
     (Do_config\<lparr>maxAttempts := 10, maxDuration := 100 * Millisecond,
                 backoff := Constant (50 * Millisecond), onRetry := Some noteRetry,
                 onExhausted := Some noteExhausted\<rparr>)
     10 100000000
     \<lparr>lastErr = Some errTest, errs = [], attempt = 2,
      world = newFakeClock\<lparr>clock_now := 100000000, clock_sleeps := [30000000],
                retryCalls := [(1, errTest, 30000000)]\<rparr>,
      rts = constant_draws 0,
      trace = [Called 1 (Some errTest), RetryHook 1 errTest 30000000, Slept 30000000 None]\<rparr> \<and>
   loop (\<lambda>w. (Some errTest, fakeClock_Advance (70 * Millisecond) w))
     (Do_config\<lparr>maxAttempts := 10, maxDuration := 100 * Millisecond,
                 backoff := Constant (50 * Millisecond), onRetry := Some noteRetry,
                 onExhausted := Some noteExhausted\<rparr>)
     10 100000000 (initial_state (newFakeClock\<lparr>ctx_done := True\<rparr>) (constant_draws 0)) =
     \<lparr>returned = Some errTest, exit_via = Cancelled,
      final = \<lparr>lastErr = Some errTest, errs = [], attempt = 1,
               world = newFakeClock\<lparr>clock_now := 70000000, ctx_done := True,
                         retryCalls := [(1, errTest, 30000000)]\<rparr>,
               rts = constant_draws 0,
               trace = [Called 1 (Some errTest), RetryHook 1 errTest 30000000,
                        Slept 30000000 (Some context_Canceled)]\<rparr>\<rparr> \<and>
   loop (\<lambda>w. (Some errTest, fakeClock_Advance (100 * Millisecond) w))
     (Do_config\<lparr>maxAttempts := 10, maxDuration := 100 * Millisecond,
                 backoff := Constant (10 * Millisecond), onRetry := Some noteRetry,
                 onExhausted := Some noteExhausted\<rparr>)
     10 100000000 (initial_state newFakeClock (constant_draws 0)) =
     \<lparr>returned = Some errTest, exit_via = Exhausted,
      final = \<lparr>lastErr = Some errTest, errs = [], attempt = 1,
               world = newFakeClock\<lparr>clock_now := 100000000, exhaustedCalls := [(1, errTest)]\<rparr>,
               rts = constant_draws 0,
               trace = [Called 1 (Some errTest), ExhaustedHook 1 errTest]\<rparr>\<rparr>"
proof -
  let ?st = "\<lambda>w. initial_state w (constant_draws 0)"
  let ?cfg = "\<lambda>d. Do_config\<lparr>maxAttempts := 10, maxDuration := 100 * Millisecond,
                 backoff := Constant d, onRetry := Some noteRetry,
                 onExhausted := Some noteExhausted\<rparr>"
  let ?adv = "\<lambda>d w. (Some errTest, fakeClock_Advance d w)"
  let ?at = "\<lambda>t. newFakeClock\<lparr>clock_now := t\<rparr>"
  let ?next = "\<lambda>n. \<lparr>lastErr = Some errTest, errs = [], attempt = n,
      world = newFakeClock\<lparr>clock_now := 100000000, clock_sleeps := [30000000],
                retryCalls := [(1, errTest, 30000000)]\<rparr>,
      rts = constant_draws 0,
      trace = [Called 1 (Some errTest), RetryHook 1 errTest 30000000, Slept 30000000 None]\<rparr>"
  let ?cancelled = "\<lparr>lastErr = Some errTest, errs = [], attempt = 1,
               world = newFakeClock\<lparr>clock_now := 70000000, ctx_done := True,
                         retryCalls := [(1, errTest, 30000000)]\<rparr>,
               rts = constant_draws 0,
               trace = [Called 1 (Some errTest), RetryHook 1 errTest 30000000,
                        Slept 30000000 (Some context_Canceled)]\<rparr>"
  note ev = Do_config_def defaultCondition_def fakeClock_Now_def fakeClock_Sleep_def
    noteExhausted_def noteRetry_def newFakeClock_def initial_state_def errTest_def
    Millisecond_def time_Add_def time_Sub_def MaxInt64_def DefaultMaxAttempts_def
    constant_draws_def fakeClock_Advance_def
  have h1: "?adv (70 * Millisecond) (world (?st newFakeClock)) = (Some errTest, ?at 70000000)"
    "?adv (70 * Millisecond) (world (?st (newFakeClock\<lparr>ctx_done := True\<rparr>))) =
       (Some errTest, newFakeClock\<lparr>clock_now := 70000000, ctx_done := True\<rparr>)"
    "?adv (100 * Millisecond) (world (?st newFakeClock)) = (Some errTest, ?at 100000000)"
    by (simp_all add: ev)
  have h2: "errors_As_stopError errTest = None"
    by (simp add: errTest_def)
  have h3: "attempt (?st w) < 10" for w :: test_world
    by (simp add: initial_state_def)
  have h4: "\<forall>p. condition (?cfg d) = Some p \<longrightarrow> p errTest" for d
    by (simp add: Do_config_def defaultCondition_def)
  have h5: "0 < sint (maxDuration (?cfg d))" for d
    by (simp add: Millisecond_def)
  have h6: "clock_Now (?cfg d) w = (clock_now w, w)" for d w
    by (simp add: Do_config_def fakeClock_Now_def)
  have h7: "\<not> (100000000 :: int) < 70000000" "\<not> (100000000 :: int) < 100000000"
    by simp_all
  have h8: "Delay (backoff (?cfg d)) (attempt (?st w)) (rts (?st w)) = (d, constant_draws 0)"
    for d and w :: test_world
    by (simp add: Do_config_def initial_state_def)
  have h10: "30000000 =
      (if sint (time_Sub 100000000 70000000) < sint (50 * Millisecond)
       then time_Sub 100000000 70000000 else 50 * Millisecond)"
    "0 = (if sint (time_Sub 100000000 100000000) < sint (10 * Millisecond)
          then time_Sub 100000000 100000000 else 10 * Millisecond)"
    by (simp_all add: time_Sub_def Millisecond_def MaxInt64_def)
  note A = delay_clamped_to_deadline [where fn = "?adv (70 * Millisecond)"
      and st = "?st newFakeClock" and e = errTest and ?w1.0 = "?at 70000000" and maxA = 10
      and cfg = "?cfg (50 * Millisecond)" and ?now1.0 = 70000000 and ?w2.0 = "?at 70000000"
      and deadline = 100000000 and delay = "50 * Millisecond" and rt' = "constant_draws 0"
      and ?now2.0 = 70000000 and ?w3.0 = "?at 70000000" and clamped = 30000000
      and r = None and st' = "?next 1"
      and ?w4.0 = "newFakeClock\<lparr>clock_now := 100000000, clock_sleeps := [30000000],
                retryCalls := [(1, errTest, 30000000)]\<rparr>",
      OF h1(1) h2 h3 h4 h5 _ h7(1) h8 _ h10(1) refl refl, THEN conjunct2]
  note B = delay_clamped_to_deadline [where fn = "?adv (70 * Millisecond)"
      and st = "?st (newFakeClock\<lparr>ctx_done := True\<rparr>)" and e = errTest
      and ?w1.0 = "newFakeClock\<lparr>clock_now := 70000000, ctx_done := True\<rparr>" and maxA = 10
      and cfg = "?cfg (50 * Millisecond)" and ?now1.0 = 70000000
      and ?w2.0 = "newFakeClock\<lparr>clock_now := 70000000, ctx_done := True\<rparr>"
      and deadline = 100000000 and delay = "50 * Millisecond" and rt' = "constant_draws 0"
      and ?now2.0 = 70000000
      and ?w3.0 = "newFakeClock\<lparr>clock_now := 70000000, ctx_done := True\<rparr>"
      and clamped = 30000000 and r = "Some context_Canceled" and st' = ?cancelled
      and ?w4.0 = "newFakeClock\<lparr>clock_now := 70000000, ctx_done := True,
                         retryCalls := [(1, errTest, 30000000)]\<rparr>",
      OF h1(2) h2 h3 h4 h5 _ h7(1) h8 _ h10(1) refl refl, THEN conjunct2]
  note C = delay_clamped_to_deadline [where fn = "?adv (100 * Millisecond)"
      and st = "?st newFakeClock" and e = errTest and ?w1.0 = "?at 100000000" and maxA = 10
      and cfg = "?cfg (10 * Millisecond)" and ?now1.0 = 100000000 and ?w2.0 = "?at 100000000"
      and deadline = 100000000 and delay = "10 * Millisecond" and rt' = "constant_draws 0"
      and ?now2.0 = 100000000 and ?w3.0 = "?at 100000000" and clamped = 0,
      OF h1(3) h2 h3 h4 h5 _ h7(2) h8 _ h10(2) refl refl, THEN conjunct1]
  from A have a: "attempt_body (?adv (70 * Millisecond)) (?cfg (50 * Millisecond)) 10 100000000
      (?st newFakeClock) = Continue (?next 1)"
    and a': "loop (?adv (70 * Millisecond)) (?cfg (50 * Millisecond)) 10 100000000
      (?st newFakeClock) =
      loop (?adv (70 * Millisecond)) (?cfg (50 * Millisecond)) 10 100000000 (?next 2)"
    by (simp_all add: ev)
  from B have b: "loop (?adv (70 * Millisecond)) (?cfg (50 * Millisecond)) 10 100000000
      (?st (newFakeClock\<lparr>ctx_done := True\<rparr>)) =
      \<lparr>returned = Some errTest, exit_via = Cancelled, final = ?cancelled\<rparr>"
    by (simp add: ev context_Canceled_def)
  from C have c: "loop (?adv (100 * Millisecond)) (?cfg (10 * Millisecond)) 10 100000000
      (?st newFakeClock) =
     \<lparr>returned = Some errTest, exit_via = Exhausted,
      final = \<lparr>lastErr = Some errTest, errs = [], attempt = 1,
               world = newFakeClock\<lparr>clock_now := 100000000, exhaustedCalls := [(1, errTest)]\<rparr>,
               rts = constant_draws 0,
               trace = [Called 1 (Some errTest), ExhaustedHook 1 errTest]\<rparr>\<rparr>"
    by (simp add: ev)
  from a a' b c show ?thesis by blast
qed

text \<open>
  C7: on every exit that returns recorded errors, the default mode returns the most
  recent failure only, and aggregation mode returns the combination of all failures,
  which \<^verbatim>\<open>errors.Is\<close> matches against each of them.  After failures \<open>E1\<close> then \<open>E2\<close>
  (where \<open>E2\<close> does not itself wrap \<open>E1\<close>) the default result matches \<open>E2\<close> and not
  \<open>E1\<close>; the aggregated result matches both.
\<close>

theorem error_selection:
  assumes "exit_via (execute fn cfg w rt) \<noteq> Success"
    and "exit_via (execute fn cfg w rt) \<noteq> Stopped"
    and "fs = failures (trace (final (execute fn cfg w rt)))"
  shows "fs \<noteq> [] \<and>
         (\<not> allErrors cfg \<longrightarrow> returned (execute fn cfg w rt) = Some (last fs)) \<and>
         (allErrors cfg \<longrightarrow>
            returned (execute fn cfg w rt) = joinErrors fs \<and>
            (\<exists>r. returned (execute fn cfg w rt) = Some r \<and> (\<forall>e \<in> set fs. errors_Is r e))) \<and>
         (\<not> allErrors cfg \<and> fs = [E1, E2] \<and> \<not> errors_Is E2 E1 \<longrightarrow>
            (\<exists>r. returned (execute fn cfg w rt) = Some r \<and> errors_Is r E2 \<and> \<not> errors_Is r E1)) \<and>
         (allErrors cfg \<and> fs = [E1, E2] \<longrightarrow>
            (\<exists>r. returned (execute fn cfg w rt) = Some r \<and> errors_Is r E1 \<and> errors_Is r E2))"
proof -
  have "records_failures cfg (snd (set_deadline cfg w rt))"
    by (simp add: records_failures_def set_deadline_state)
  from loop_recorded [OF this assms(1,2) [unfolded execute_loop], folded execute_loop, folded assms(3)]
  have r: "returned (execute fn cfg w rt) = recorded cfg (final (execute fn cfg w rt))"
    and i: "records_failures cfg (final (execute fn cfg w rt))" and ne: "fs \<noteq> []"
    by simp_all
  have d: "returned (execute fn cfg w rt) = Some (last fs)" if "\<not> allErrors cfg"
    using that r i ne by (simp add: recorded_def records_failures_def assms(3))
  have a: "returned (execute fn cfg w rt) = joinErrors fs" if "allErrors cfg"
    using that r i by (simp add: recorded_def records_failures_def assms(3))
  obtain j where j: "joinErrors fs = Some j" "\<And>e. e \<in> set fs \<Longrightarrow> errors_Is j e"
    using joinErrors_matches_each [OF ne] by blast
  show ?thesis
  proof (intro conjI impI)
    show "fs \<noteq> []" by (rule ne)
    show "returned (execute fn cfg w rt) = Some (last fs)" if "\<not> allErrors cfg"
      using that by (rule d)
    show "returned (execute fn cfg w rt) = joinErrors fs" if "allErrors cfg"
      using that by (rule a)
    show "\<exists>r. returned (execute fn cfg w rt) = Some r \<and> (\<forall>e \<in> set fs. errors_Is r e)"
      if "allErrors cfg"
      using a [OF that] j by auto
    show "\<exists>r. returned (execute fn cfg w rt) = Some r \<and> errors_Is r E2 \<and> \<not> errors_Is r E1"
      if "\<not> allErrors cfg \<and> fs = [E1, E2] \<and> \<not> errors_Is E2 E1"
      using d that by (simp add: errors_Is_refl)
    show "\<exists>r. returned (execute fn cfg w rt) = Some r \<and> errors_Is r E1 \<and> errors_Is r E2"
      if "allErrors cfg \<and> fs = [E1, E2]"
      using a j that by auto
  qed
qed

theorem error_selection_witness:
  "returned (execute (counting (\<lambda>n. if n = 1 then Some (New ''error 1'') else Some (New ''error 2'')))
     (Do_config\<lparr>maxAttempts := 2\<rparr>) newFakeClock (constant_draws 0)) = Some (New ''error 2'') \<and>
   errors_Is (New ''error 2'') (New ''error 2'') \<and> \<not> errors_Is (New ''error 2'') (New ''error 1'') \<and>
   returned (execute (counting (\<lambda>n. if n = 1 then Some (New ''error 1'') else Some (New ''error 2'')))
     (Do_config\<lparr>maxAttempts := 2, allErrors := True\<rparr>) newFakeClock (constant_draws 0)) =
     Some (Joined [New ''error 1'', New ''error 2'']) \<and>
   errors_Is (Joined [New ''error 1'', New ''error 2'']) (New ''error 1'') \<and>
   errors_Is (Joined [New ''error 1'', New ''error 2'']) (New ''error 2'')"
proof -
  let ?fn = "counting (\<lambda>n. if n = 1 then Some (New ''error 1'') else Some (New ''error 2''))"
  let ?d = "execute ?fn (Do_config\<lparr>maxAttempts := 2\<rparr>) newFakeClock (constant_draws 0)"
  let ?a = "execute ?fn (Do_config\<lparr>maxAttempts := 2, allErrors := True\<rparr>) newFakeClock
              (constant_draws 0)"
  have d: "exit_via ?d \<noteq> Success" "exit_via ?d \<noteq> Stopped"
    "[New ''error 1'', New ''error 2''] = failures (trace (final ?d))"
    by (simp_all add: loop.simps run_defs)
  have a: "exit_via ?a \<noteq> Success" "exit_via ?a \<noteq> Stopped"
    "[New ''error 1'', New ''error 2''] = failures (trace (final ?a))"
    by (simp_all add: loop.simps run_defs)
  from error_selection [OF d, of "New ''error 1''" "New ''error 2''"]
    error_selection [OF a, of "New ''error 1''" "New ''error 2''"]
  show ?thesis
    by (simp add: Do_config_def joinErrors_def errors_Join_def)
qed

text \<open>
  C9: the attempt budget of a run is always positive and bounds the number of calls;
  a configured maximum that is zero or negative runs exactly as a maximum of 3.
\<close>

theorem nonpositive_maxAttempts_defaults:
  "0 < attempt_budget cfg \<and>
   length (operation_calls (trace (final (execute fn cfg w rt)))) \<le> nat (attempt_budget cfg) \<and>
   (maxAttempts cfg \<le> 0 \<longrightarrow>
      attempt_budget cfg = 3 \<and>
      execute fn cfg w rt = execute fn (cfg\<lparr>maxAttempts := 3\<rparr>) w rt)"
proof (intro conjI impI)
  show pos: "0 < attempt_budget cfg"
    by (simp add: attempt_budget_def DefaultMaxAttempts_def)
  from loop_counts [of "snd (set_deadline cfg w rt)" fn cfg "attempt_budget cfg"
        "fst (set_deadline cfg w rt)"] pos
  have "attempt (final (execute fn cfg w rt)) \<le> attempt_budget cfg"
    and "length (operation_calls (trace (final (execute fn cfg w rt)))) =
         nat (attempt (final (execute fn cfg w rt)))"
    by (simp_all add: execute_loop set_deadline_state)
  then show "length (operation_calls (trace (final (execute fn cfg w rt)))) \<le> nat (attempt_budget cfg)"
    by (simp only: nat_mono)
next
  assume "maxAttempts cfg \<le> 0"
  then show "attempt_budget cfg = 3"
    by (simp add: attempt_budget_def DefaultMaxAttempts_def)
  with \<open>maxAttempts cfg \<le> 0\<close>
  show "execute fn cfg w rt = execute fn (cfg\<lparr>maxAttempts := 3\<rparr>) w rt"
    by (simp add: execute_loop set_deadline_maxAttempts_update loop_maxAttempts_update
          attempt_budget_def)
qed

theorem nonpositive_maxAttempts_defaults_witness:
  "attempt_budget (Do_config\<lparr>maxAttempts := 0\<rparr>) = 3 \<and>
   execute (counting (\<lambda>n. Some errTest)) (Do_config\<lparr>maxAttempts := 0\<rparr>) newFakeClock
     (constant_draws 0) =
   execute (counting (\<lambda>n. Some errTest)) (Do_config\<lparr>maxAttempts := 3\<rparr>) newFakeClock
     (constant_draws 0) \<and>
   operation_calls (trace (final (execute (counting (\<lambda>n. Some errTest))
     (Do_config\<lparr>maxAttempts := 0\<rparr>) newFakeClock (constant_draws 0)))) = [1, 2, 3]"
proof -
  have "operation_calls (trace (final (execute (counting (\<lambda>n. Some errTest))
     (Do_config\<lparr>maxAttempts := 3\<rparr>) newFakeClock (constant_draws 0)))) = [1, 2, 3]"
    by (simp add: loop.simps run_defs)
  with nonpositive_maxAttempts_defaults [of "Do_config\<lparr>maxAttempts := 0\<rparr>"
      "counting (\<lambda>n. Some errTest)" newFakeClock "constant_draws 0"]
  show ?thesis by (simp add: Do_config_def)
qed

text \<open>
  C10: an error whose chain contains a \<^verbatim>\<open>Stop\<close> marker at any depth is terminal: the
  loop leaves through \<open>Stopped\<close> on that attempt and returns the error inside a marker
  of the chain; for an error that wraps a marker, it returns the error inside that
  marker without the wrapping.
\<close>

theorem terminal_marker_found_in_chain:
  assumes "fn (world st) = (Some e, w1)" and "errors_Is e (StopErr c)"
  shows "(\<exists>c'. errors_Is e (StopErr c') \<and>
           loop fn cfg maxA deadline st =
             \<lparr>returned = Some c', exit_via = Stopped,
              final = st\<lparr>world := w1, trace := trace st @ [Called (attempt st) (Some e)]\<rparr>\<rparr>) \<and>
         (\<forall>ws. e = foldr Wrapped ws (StopErr c) \<longrightarrow>
            returned (loop fn cfg maxA deadline st) = Some c)"
proof (intro conjI allI impI)
  from assms(2) obtain m where m: "errors_As_stopError e = Some m"
    using errors_As_stopError_None(1) [of e c] by (cases "errors_As_stopError e") auto
  then obtain c' where c': "m = StopErr c'" "errors_Is e (StopErr c')"
    using errors_As_stopError_Some(1) by blast
  with m assms(1) show "\<exists>c'. errors_Is e (StopErr c') \<and>
           loop fn cfg maxA deadline st =
             \<lparr>returned = Some c', exit_via = Stopped,
              final = st\<lparr>world := w1, trace := trace st @ [Called (attempt st) (Some e)]\<rparr>\<rparr>"
    by (auto simp: loop_Stopped)
next
  fix ws assume "e = foldr Wrapped ws (StopErr c)"
  then have "errors_As_stopError e = Some (StopErr c)"
    by (simp add: errors_As_stopError_wrapped)
  with assms(1) show "returned (loop fn cfg maxA deadline st) = Some c"
    by (simp add: loop_Stopped)
qed

theorem terminal_marker_found_in_chain_witness:
  "returned (loop (counting (\<lambda>n. Some (Wrapped ''fetch user'' (StopErr errTest)))) Do_config 3 0
     (initial_state newFakeClock (constant_draws 0))) = Some errTest"
proof -
  have 1: "counting (\<lambda>n. Some (Wrapped ''fetch user'' (StopErr errTest)))
             (world (initial_state newFakeClock (constant_draws 0))) =
           (Some (Wrapped ''fetch user'' (StopErr errTest)), newFakeClock\<lparr>attempts := 1\<rparr>)"
    by (simp add: counting_def newFakeClock_def initial_state_def)
  have 2: "errors_Is (Wrapped ''fetch user'' (StopErr errTest)) (StopErr errTest)"
    by simp
  have 3: "Wrapped ''fetch user'' (StopErr errTest) = foldr Wrapped [''fetch user''] (StopErr errTest)"
    by simp
  from terminal_marker_found_in_chain
    [where fn = "counting (\<lambda>n. Some (Wrapped ''fetch user'' (StopErr errTest)))"
      and st = "initial_state newFakeClock (constant_draws 0)" and cfg = Do_config
      and maxA = 3 and deadline = 0, OF 1 2] 3
  show ?thesis by blast
qed

end
